theory Spec2Isabelle
  imports Main "HOL-Library.Word"
begin

unbundle bit_operations_syntax

section \<open>The interrupt monitor file of procfs (sched/irq/irq_procfs.c)\<close>

text \<open>
  The embedding follows the configuration the file is compiled in: \<open>CONFIG_HAVE_LONG_LONG\<close>
  (the only branch that compiles, the other one is \<open>#error Missing logic\<close>), on the 32-bit
  target of the repository's boards (STM32, ILP32): \<open>unsigned int\<close>, \<open>unsigned long\<close>,
  \<open>uintptr_t\<close> and \<open>clock_t\<close> are 32-bit words, the interrupt count is a \<open>uint64_t\<close>.
  Arithmetic on these wraps around as in C.

  Buffer sizes, byte counts and file offsets (\<open>size_t\<close>, \<open>off_t\<close>) are natural numbers:
  \<open>copysize\<close> never exceeds \<open>remaining\<close>, \<open>ncopied\<close> never exceeds the caller's \<open>buflen\<close>,
  and a read only copies when the offset lies inside the report, so none of them can wrap.
\<close>

subsection \<open>Data\<close>

type_synonym clock_t = "32 word"

text \<open>
  Modelled from the spec: \<open>struct irq_info_s\<close> is declared in a header that is not among the
  sources. The spec's InterruptRecord has handler, argument, count, busy time and window start;
  the field names are the ones \<open>irq_callback\<close> uses.
\<close>

record irq_info_s =
  handler :: "32 word"
  arg :: "32 word"
  start :: clock_t
  count :: "64 word"
  time :: clock_t

record timespec =
  tv_sec :: "32 word"
  tv_nsec :: "32 word"

text \<open>\<open>struct irq_file_s\<close>: one open file. \<open>buffer\<close> is an address of user memory.\<close>

record irq_file_s =
  base :: "32 word"
  buffer :: nat
  remaining :: nat
  ncopied :: nat
  offset :: nat
  line :: string

text \<open>The two fields of \<open>struct file\<close> the driver touches; \<open>f_priv = None\<close> is \<open>NULL\<close>.\<close>

record struct_file =
  f_pos :: nat
  f_priv :: "nat option"

text \<open>
  What the driver takes from headers and collaborators outside the sources: the macro
  \<open>TICK_PER_SEC\<close>, the open flags \<open>O_RDONLY\<close> and \<open>O_WRONLY\<close>, and the tick to time
  conversion \<open>up_perf_convert\<close>. They are parameters of the model.
\<close>

record config =
  TICK_PER_SEC :: "64 word"
  O_RDONLY :: int
  O_WRONLY :: int
  up_perf_convert :: "clock_t \<Rightarrow> timespec"

text \<open>
  What the C code can do other than return: divide by zero, read past the scratch line of the
  session, or fail a \<open>DEBUGASSERT\<close> on the session pointer.
\<close>

datatype fault = DivideByZero | ScratchOverrun | AssertFailed

type_synonym mem = "nat \<Rightarrow> char"

text \<open>
  The stores: the interrupt table in enumeration order, the \<open>struct file\<close> objects by
  address, the kernel heap of sessions (a slot is \<open>None\<close> when free) and the user memory
  the read buffers live in.
\<close>

record sys =
  g_irqvector :: "(int \<times> irq_info_s) list"
  files :: "nat \<Rightarrow> struct_file"
  heap :: "irq_file_s option list"
  umem :: mem

definition OK :: int where
  "OK = 0"

definition EACCES :: int where
  "EACCES = 13"

definition ENOMEM :: int where
  "ENOMEM = 12"

definition IRQ_LINELEN :: nat where
  "IRQ_LINELEN = 50"

definition HDR_FMT :: string where
  "HDR_FMT = ''IRQ HANDLER  ARGUMENT    COUNT    RATE    TIME'' @ [CHR 0x0A]"

subsection \<open>The C library: formatted output and memory copy\<close>

definition digit :: "nat \<Rightarrow> char" where
  "digit d = ''0123456789abcdef'' ! d"

fun dec :: "nat \<Rightarrow> string" where
  "dec n = (if n < 10 then [digit n] else dec (n div 10) @ [digit (n mod 10)])"

fun hex :: "nat \<Rightarrow> string" where
  "hex n = (if n < 16 then [digit n] else hex (n div 16) @ [digit (n mod 16)])"

declare dec.simps [simp del] hex.simps [simp del]

text \<open>A minimum field width pads on the left and never truncates.\<close>

definition pad :: "char \<Rightarrow> nat \<Rightarrow> string \<Rightarrow> string" where
  "pad c w s = replicate (w - length s) c @ s"

text \<open>
  \<open>IRQ_FMT\<close> is \<open>"%3u %08lx %08lx %10lu %4lu.%03lu %4lu\n"\<close>; its seven arguments are
  32-bit unsigned values.
\<close>

definition IRQ_FMT ::
  "32 word \<Rightarrow> 32 word \<Rightarrow> 32 word \<Rightarrow> 32 word \<Rightarrow> 32 word \<Rightarrow> 32 word \<Rightarrow> 32 word \<Rightarrow> string" where
  "IRQ_FMT irq h a c ip fp us =
     pad (CHR '' '') 3 (dec (unat irq)) @ '' '' @
     pad (CHR ''0'') 8 (hex (unat h)) @ '' '' @
     pad (CHR ''0'') 8 (hex (unat a)) @ '' '' @
     pad (CHR '' '') 10 (dec (unat c)) @ '' '' @
     pad (CHR '' '') 4 (dec (unat ip)) @ ''.'' @
     pad (CHR ''0'') 3 (dec (unat fp)) @ '' '' @
     pad (CHR '' '') 4 (dec (unat us)) @ [CHR 0x0A]"

text \<open>
  \<open>snprintf(buf, n, ...)\<close> stores at most \<open>n - 1\<close> characters of the text and a terminating
  NUL, leaves the rest of the array as it was, and returns the length of the whole text,
  stored or not.
\<close>

definition snprintf :: "string \<Rightarrow> nat \<Rightarrow> string \<Rightarrow> string \<times> nat" where
  "snprintf buf n txt =
     (if n = 0 then buf
      else take (n - 1) txt @ [CHR 0x00] @ drop (min (length txt) (n - 1) + 1) buf,
      length txt)"

definition memcpy :: "mem \<Rightarrow> nat \<Rightarrow> string \<Rightarrow> mem" where
  "memcpy m dest bs = (\<lambda>a. if dest \<le> a \<and> a < dest + length bs then bs ! (a - dest) else m a)"

definition mem_read :: "mem \<Rightarrow> nat \<Rightarrow> nat \<Rightarrow> string" where
  "mem_read m a n = map m [a ..< a + n]"

subsection \<open>Collaborators that are not among the sources\<close>

text \<open>
  Modelled from the spec: \<open>procfs_memcpy\<close> is the skip/copy primitive of the procfs layer.
  Given a candidate line of length \<open>srclen\<close> and the current offset and remaining capacity:
  if the offset is at least the length, the line is discarded and the offset decremented by
  the length; if the offset is inside the line, the tail is copied, bounded by the remaining
  capacity, and the offset zeroed; if the offset is zero, up to \<open>min srclen destlen\<close> bytes
  are copied. It returns the new offset and the number of bytes copied. The bytes come out of
  the array \<open>src\<close>: asking for a byte past its end is the fault \<open>ScratchOverrun\<close>.
\<close>

definition procfs_memcpy ::
  "string \<Rightarrow> nat \<Rightarrow> mem \<Rightarrow> nat \<Rightarrow> nat \<Rightarrow> nat \<Rightarrow> fault + (mem \<times> nat \<times> nat)" where
  "procfs_memcpy src srclen m dest destlen off =
     (if srclen \<le> off then Inr (m, off - srclen, 0)
      else if 0 < off then
        (let copysize = min (srclen - off) destlen in
         if 0 < copysize \<and> length src < off + copysize then Inl ScratchOverrun
         else Inr (memcpy m dest (take copysize (drop off src)), 0, copysize))
      else
        (let copysize = min srclen destlen in
         if 0 < copysize \<and> length src < copysize then Inl ScratchOverrun
         else Inr (memcpy m dest (take copysize src), 0, copysize)))"

text \<open>
  Modelled from the spec: \<open>irq_foreach\<close> is the registry's enumerate-all operation with early
  stop: it visits the records in enumeration order, synchronously, and stops at the first
  visit that returns non-zero. The callback gets the number of the visit, which the driver
  uses to read the clock; a fault in a visit ends the traversal.
\<close>

fun irq_foreach ::
  "(nat \<Rightarrow> int \<Rightarrow> irq_info_s \<Rightarrow> 'a \<Rightarrow> irq_info_s \<times> (fault + 'a \<times> int)) \<Rightarrow>
   (int \<times> irq_info_s) list \<Rightarrow> 'a \<Rightarrow> (int \<times> irq_info_s) list \<times> (fault + 'a)" where
  "irq_foreach callback [] a = ([], Inr a)"
| "irq_foreach callback ((irq, info) # rs) a =
     (case callback 0 irq info a of
        (info', Inl e) \<Rightarrow> ((irq, info') # rs, Inl e)
      | (info', Inr (a', ret)) \<Rightarrow>
          if ret \<noteq> 0 then ((irq, info') # rs, Inr a')
          else (case irq_foreach (\<lambda>k. callback (Suc k)) rs a' of
                  (rs', r) \<Rightarrow> ((irq, info') # rs', r)))"

text \<open>
  Modelled from the spec: the kernel allocator. \<open>kmm_malloc\<close> returns the address of a free
  slot, or nothing when the heap is exhausted; \<open>kmm_zalloc\<close> also zeroes the block.
\<close>

fun kmm_malloc :: "'a option list \<Rightarrow> nat option" where
  "kmm_malloc [] = None"
| "kmm_malloc (None # h) = Some 0"
| "kmm_malloc (Some x # h) = map_option Suc (kmm_malloc h)"

definition zeroed :: irq_file_s where
  "zeroed = \<lparr>base = 0, buffer = 0, remaining = 0, ncopied = 0, offset = 0,
             line = replicate IRQ_LINELEN (CHR 0x00)\<rparr>"

definition kmm_zalloc :: "irq_file_s option list \<Rightarrow> (nat \<times> irq_file_s option list) option" where
  "kmm_zalloc h = (case kmm_malloc h of None \<Rightarrow> None | Some a \<Rightarrow> Some (a, h[a := Some zeroed]))"

definition deref :: "irq_file_s option list \<Rightarrow> nat \<Rightarrow> irq_file_s option" where
  "deref h a = (if a < length h then h ! a else None)"

subsection \<open>irq\_callback\<close>

text \<open>Lines 203 and 211: the elapsed window in ticks, and its floor.\<close>

definition irq_elapsed :: "clock_t \<Rightarrow> clock_t \<Rightarrow> clock_t" where
  "irq_elapsed now st = (let elapsed = now - st in if elapsed \<noteq> 0 then elapsed else 1)"

definition udiv64 :: "64 word \<Rightarrow> 64 word \<Rightarrow> fault + 64 word" where
  "udiv64 a b = (if b = 0 then Inl DivideByZero else Inr (a div b))"

text \<open>Lines 212 to 223: the integer part and the three decimals of the rate.\<close>

definition irq_rate :: "64 word \<Rightarrow> 64 word \<Rightarrow> clock_t \<Rightarrow> fault + (32 word \<times> 32 word)" where
  "irq_rate tps cnt elapsed =
     (case udiv64 (cnt * tps) (ucast elapsed) of
        Inl e \<Rightarrow> Inl e
      | Inr q \<Rightarrow>
          (let intpart = (ucast q :: 32 word) in
           if 10000 \<le> intpart then Inr (9999, 999)
           else
             (let intcount = (ucast intpart :: 64 word) * ucast elapsed in
              case udiv64 ((cnt * tps - intcount) * 1000) (ucast elapsed) of
                Inl e \<Rightarrow> Inl e
              | Inr q' \<Rightarrow> Inr (intpart, ucast q'))))"

text \<open>Lines 227 to 234: the count as \<open>%lu\<close> can print it; \<open>ULONG_MAX\<close> is \<open>2^32 - 1\<close>.\<close>

definition ULONG_MAX :: "64 word" where
  "ULONG_MAX = 0xFFFFFFFF"

definition irq_count :: "64 word \<Rightarrow> 32 word" where
  "irq_count c = (if ULONG_MAX < c then ucast ULONG_MAX else ucast c)"

text \<open>
  One visit. \<open>now\<close> is what \<open>clock_systime_ticks\<close> returns inside the critical section. The
  record is passed in and returned; the session and the user memory are passed along.
  The first component of the result is the record as the visit leaves it, also when the
  visit faults later.
\<close>

definition irq_callback ::
  "config \<Rightarrow> clock_t \<Rightarrow> int \<Rightarrow> irq_info_s \<Rightarrow> irq_file_s \<times> mem \<Rightarrow>
   irq_info_s \<times> (fault + (irq_file_s \<times> mem) \<times> int)" where
  "irq_callback cfg now irq info fm =
     (let copy = info;
          info' = info\<lparr>start := now, count := 0, time := 0\<rparr>;
          irqfile = fst fm;
          m = snd fm
      in
      if count copy = 0 then (info', Inr (fm, 0))
      else
        (let delta = up_perf_convert cfg (time copy) in
         case irq_rate (TICK_PER_SEC cfg) (count copy) (irq_elapsed now (start copy)) of
           Inl e \<Rightarrow> (info', Inl e)
         | Inr (intpart, fracpart) \<Rightarrow>
             (let cnt = irq_count (count copy);
                  (line', linesize) =
                     snprintf (line irqfile) IRQ_LINELEN
                       (IRQ_FMT (word_of_int irq) (handler copy) (arg copy) cnt intpart fracpart
                          (tv_nsec delta div 1000))
              in
              case procfs_memcpy line' linesize m (buffer irqfile) (remaining irqfile)
                     (offset irqfile) of
                Inl e \<Rightarrow> (info', Inl e)
              | Inr (m', off', copysize) \<Rightarrow>
                  (let irqfile' = irqfile\<lparr>line := line', offset := off',
                         ncopied := ncopied irqfile + copysize,
                         buffer := buffer irqfile + copysize,
                         remaining := remaining irqfile - copysize\<rparr>
                   in (info', Inr ((irqfile', m'), if 0 < remaining irqfile' then 0 else 1))))))"

subsection \<open>The file operations\<close>

text \<open>
  \<open>irq_open\<close>: \<open>relpath\<close> and \<open>mode\<close> are only logged and are left out. The result is the
  state and the return code.
\<close>

definition irq_open :: "config \<Rightarrow> nat \<Rightarrow> int \<Rightarrow> sys \<Rightarrow> sys \<times> int" where
  "irq_open cfg filep oflags s =
     (if (oflags AND O_WRONLY cfg) \<noteq> 0 \<or> (oflags AND O_RDONLY cfg) = 0 then (s, - EACCES)
      else
        (case kmm_zalloc (heap s) of
           None \<Rightarrow> (s, - ENOMEM)
         | Some (a, h') \<Rightarrow>
             (s\<lparr>heap := h', files := (files s)(filep := (files s filep)\<lparr>f_priv := Some a\<rparr>)\<rparr>,
              OK)))"

text \<open>
  \<open>irq_read\<close>: \<open>clk k\<close> is the tick count the \<open>k\<close>-th visit of this call reads. The session
  is taken out of the heap at \<open>f_priv\<close> and put back when the call returns.
\<close>

definition irq_read ::
  "config \<Rightarrow> (nat \<Rightarrow> clock_t) \<Rightarrow> nat \<Rightarrow> nat \<Rightarrow> nat \<Rightarrow> sys \<Rightarrow> sys \<times> (fault + nat)" where
  "irq_read cfg clk filep buf buflen s =
     (case f_priv (files s filep) of
        None \<Rightarrow> (s, Inl AssertFailed)
      | Some a \<Rightarrow>
          (case deref (heap s) a of
             None \<Rightarrow> (s, Inl AssertFailed)
           | Some irqfile0 \<Rightarrow>
               (let irqfile1 = irqfile0\<lparr>offset := f_pos (files s filep), buffer := buf,
                      remaining := buflen\<rparr>;
                    (line1, linesize) = snprintf (line irqfile1) IRQ_LINELEN HDR_FMT
                in
                case procfs_memcpy line1 linesize (umem s) (buffer irqfile1)
                       (remaining irqfile1) (offset irqfile1) of
                  Inl e \<Rightarrow> (s, Inl e)
                | Inr (m1, off1, copysize) \<Rightarrow>
                    (let irqfile2 = irqfile1\<lparr>line := line1, offset := off1,
                           ncopied := copysize,
                           buffer := buffer irqfile1 + copysize,
                           remaining := remaining irqfile1 - copysize\<rparr>
                     in
                     case irq_foreach (\<lambda>k. irq_callback cfg (clk k)) (g_irqvector s)
                            (irqfile2, m1) of
                       (reg', Inl e) \<Rightarrow> (s\<lparr>g_irqvector := reg'\<rparr>, Inl e)
                     | (reg', Inr (irqfile3, m3)) \<Rightarrow>
                         (s\<lparr>g_irqvector := reg',
                            files := (files s)(filep := (files s filep)
                                       \<lparr>f_pos := f_pos (files s filep) + ncopied irqfile3\<rparr>),
                            heap := (heap s)[a := Some irqfile3],
                            umem := m3\<rparr>,
                          Inr (ncopied irqfile3))))))"

text \<open>\<open>irq_dup\<close>: the assertion on the old session comes before the allocation.\<close>

definition irq_dup :: "nat \<Rightarrow> nat \<Rightarrow> sys \<Rightarrow> sys \<times> (fault + int)" where
  "irq_dup oldp newp s =
     (case f_priv (files s oldp) of
        None \<Rightarrow> (s, Inl AssertFailed)
      | Some a \<Rightarrow>
          (case deref (heap s) a of
             None \<Rightarrow> (s, Inl AssertFailed)
           | Some oldattr \<Rightarrow>
               (case kmm_malloc (heap s) of
                  None \<Rightarrow> (s, Inr (- ENOMEM))
                | Some b \<Rightarrow>
                    (s\<lparr>heap := (heap s)[b := Some oldattr],
                       files := (files s)(newp := (files s newp)\<lparr>f_priv := Some b\<rparr>)\<rparr>,
                     Inr OK))))"

subsection \<open>The rendered report\<close>

text \<open>
  The spec's RenderedReport, written down from its words to compare the code with: the header
  line followed by one line per record whose snapshot count is nonzero, in enumeration order.
  \<open>irq_row\<close> is the line of one record: \<open>IRQ_FMT\<close> applied to the interrupt number, the
  snapshot's handler, argument and clamped count, the rate over the floored window and the
  microseconds of the converted busy time.
\<close>


definition irq_row :: "config \<Rightarrow> clock_t \<Rightarrow> int \<Rightarrow> irq_info_s \<Rightarrow> string" where
  "irq_row cfg now irq copy =
     (case irq_rate (TICK_PER_SEC cfg) (count copy) (irq_elapsed now (start copy)) of
        Inl e \<Rightarrow> []
      | Inr (intpart, fracpart) \<Rightarrow>
          IRQ_FMT (word_of_int irq) (handler copy) (arg copy) (irq_count (count copy))
            intpart fracpart (tv_nsec (up_perf_convert cfg (time copy)) div 1000))"

fun irq_rows :: "config \<Rightarrow> (nat \<Rightarrow> clock_t) \<Rightarrow> (int \<times> irq_info_s) list \<Rightarrow> string list" where
  "irq_rows cfg clk [] = []"
| "irq_rows cfg clk ((irq, info) # rs) =
     (if count info = 0 then [] else [irq_row cfg (clk 0) irq info]) @
     irq_rows cfg (\<lambda>k. clk (Suc k)) rs"

definition irq_report :: "config \<Rightarrow> (nat \<Rightarrow> clock_t) \<Rightarrow> (int \<times> irq_info_s) list \<Rightarrow> string" where
  "irq_report cfg clk reg = HDR_FMT @ concat (irq_rows cfg clk reg)"

definition rows_fit :: "config \<Rightarrow> (nat \<Rightarrow> clock_t) \<Rightarrow> (int \<times> irq_info_s) list \<Rightarrow> bool" where
  "rows_fit cfg clk reg = list_all (\<lambda>r. length r < IRQ_LINELEN) (irq_rows cfg clk reg)"

text \<open>
  The registry after a traversal that visited the first \<open>n\<close> records: each visited record has
  its window start set to the time read in its visit and its count and busy time zeroed.
\<close>

fun reset_first :: "(nat \<Rightarrow> clock_t) \<Rightarrow> nat \<Rightarrow> (int \<times> irq_info_s) list \<Rightarrow> (int \<times> irq_info_s) list" where
  "reset_first clk 0 rs = rs"
| "reset_first clk (Suc n) [] = []"
| "reset_first clk (Suc n) ((irq, info) # rs) =
     (irq, info\<lparr>start := clk 0, count := 0, time := 0\<rparr>) # reset_first (\<lambda>k. clk (Suc k)) n rs"


subsection \<open>Reads in sequence\<close>

text \<open>
  The session as \<open>irq_read\<close> hands it to the traversal, after the header line went through
  the skip/copy step.
\<close>

definition after_header :: "irq_file_s \<Rightarrow> nat \<Rightarrow> nat \<Rightarrow> nat \<Rightarrow> irq_file_s" where
  "after_header f0 pos buf buflen =
     f0\<lparr>offset := pos - length HDR_FMT,
        buffer := buf + length (take buflen (drop pos HDR_FMT)),
        remaining := buflen - length (take buflen (drop pos HDR_FMT)),
        line := HDR_FMT @ [CHR 0x00] @ drop (length HDR_FMT + 1) (line f0),
        ncopied := length (take buflen (drop pos HDR_FMT))\<rparr>"

text \<open>
  A sequence of reads through one handle, each at the file position the one before left.
  Interrupts are delivered between the calls: every call comes with the clock it reads and
  with the registry as it stands when the call is made. The result is the concatenation of
  the bytes the calls delivered. \<open>same_report\<close> says that a call renders the report \<open>R\<close>,
  every line of it within the scratch line; \<open>capacity\<close> is the sum of the buffer sizes.
\<close>

fun irq_read_seq ::
  "config \<Rightarrow> nat \<Rightarrow> ((nat \<Rightarrow> clock_t) \<times> (int \<times> irq_info_s) list \<times> nat \<times> nat) list \<Rightarrow>
   sys \<Rightarrow> sys \<times> (fault + string)" where
  "irq_read_seq cfg filep [] s = (s, Inr [])"
| "irq_read_seq cfg filep ((clk, reg, buf, buflen) # calls) s =
     (case irq_read cfg clk filep buf buflen (s\<lparr>g_irqvector := reg\<rparr>) of
        (s', Inl e) \<Rightarrow> (s', Inl e)
      | (s', Inr n) \<Rightarrow>
          (case irq_read_seq cfg filep calls s' of
             (s'', Inl e) \<Rightarrow> (s'', Inl e)
           | (s'', Inr out) \<Rightarrow> (s'', Inr (mem_read (umem s') buf n @ out))))"

definition same_report ::
  "config \<Rightarrow> string \<Rightarrow> (nat \<Rightarrow> clock_t) \<times> (int \<times> irq_info_s) list \<times> nat \<times> nat \<Rightarrow> bool" where
  "same_report cfg R call =
     (case call of (clk, reg, buf, buflen) \<Rightarrow> irq_report cfg clk reg = R \<and> rows_fit cfg clk reg)"

definition capacity :: "((nat \<Rightarrow> clock_t) \<times> (int \<times> irq_info_s) list \<times> nat \<times> nat) list \<Rightarrow> nat" where
  "capacity calls = sum_list (map (\<lambda>(clk, reg, buf, buflen). buflen) calls)"

subsection \<open>A concrete system\<close>

text \<open>
  A configuration and a state to evaluate the definitions on: 100 ticks per second, the open
  flags of NuttX, a performance counter that counts microseconds; one open handle (file 0) with
  its session in the first heap slot, a second slot free, and the user memory zeroed.
\<close>

definition demo_cfg :: config where
  "demo_cfg = \<lparr>TICK_PER_SEC = 100, O_RDONLY = 1, O_WRONLY = 2,
     up_perf_convert = (\<lambda>t. \<lparr>tv_sec = t div 1000000, tv_nsec = (t mod 1000000) * 1000\<rparr>)\<rparr>"

definition demo_sys :: "(int \<times> irq_info_s) list \<Rightarrow> sys" where
  "demo_sys reg = \<lparr>g_irqvector = reg,
     files = (\<lambda>p. \<lparr>f_pos = 0, f_priv = (if p = 0 then Some 0 else None)\<rparr>),
     heap = [Some zeroed, None],
     umem = (\<lambda>a. CHR 0x00)\<rparr>"

definition demo_rec :: "64 word \<Rightarrow> clock_t \<Rightarrow> irq_info_s" where
  "demo_rec c t = \<lparr>handler = 0x08001000, arg = 0, start = 1000, count = c, time = t\<rparr>"

definition demo_clk :: "nat \<Rightarrow> clock_t" where
  "demo_clk k = 1100"

section \<open>Auxiliary facts\<close>

lemma snprintf_fit:
  "length txt < n \<Longrightarrow> snprintf buf n txt = (txt @ [CHR 0x00] @ drop (length txt + 1) buf, length txt)"
  by (simp add: snprintf_def min_def)

lemma memcpy_Nil [simp]: "memcpy m d [] = m"
  by (rule ext) (auto simp: memcpy_def)

lemma procfs_memcpy_fit:
  "procfs_memcpy (txt @ rest) (length txt) m dest destlen off =
     Inr (memcpy m dest (take destlen (drop off txt)), off - length txt,
          length (take destlen (drop off txt)))"
proof -
  let ?L = "length txt"
  show ?thesis
  proof (cases "?L \<le> off")
    case True
    then show ?thesis by (simp add: procfs_memcpy_def)
  next
    case False
    define c where "c = min (?L - off) destlen"
    have c: "off + c \<le> ?L" using False by (simp add: c_def)
    have t: "take c (drop off (txt @ rest)) = take destlen (drop off txt)"
      using False by (simp add: c_def min_def)
    have l: "length (take destlen (drop off txt)) = c"
      by (simp add: c_def min_def)
    have "procfs_memcpy (txt @ rest) ?L m dest destlen off =
            Inr (memcpy m dest (take c (drop off (txt @ rest))), 0, c)"
      using False c by (cases "0 < off") (auto simp: procfs_memcpy_def Let_def c_def)
    then show ?thesis using False by (simp only: t l) simp
  qed
qed

lemma memcpy_append:
  "memcpy (memcpy m d xs) (d + length xs) ys = memcpy m d (xs @ ys)"
  by (rule ext) (auto simp: memcpy_def nth_append)

lemma mem_read_memcpy [simp]: "mem_read (memcpy m d xs) d (length xs) = xs"
  by (rule nth_equalityI) (auto simp: mem_read_def memcpy_def)

lemma irq_elapsed_nonzero: "irq_elapsed now st \<noteq> 0"
  by (simp add: irq_elapsed_def Let_def)

lemma unat_ucast_32_64: "unat (ucast (w :: 32 word) :: 64 word) = unat w"
proof -
  have "unat w < 2 ^ 32" using unsigned_less [of w, where ?'a = nat] by simp
  then have "unat w < 2 ^ 64" by simp
  then show ?thesis by (simp add: unsigned_ucast_eq take_bit_nat_eq_self)
qed

lemma ucast_up_nonzero: "(w :: 32 word) \<noteq> 0 \<Longrightarrow> (ucast w :: 64 word) \<noteq> 0"
  using unat_ucast_32_64 [of w] by (metis unsigned_eq_0_iff)

lemma irq_rate_total:
  "elapsed \<noteq> 0 \<Longrightarrow> \<exists>ip fp. irq_rate tps c elapsed = Inr (ip, fp)"
  by (simp add: irq_rate_def udiv64_def ucast_up_nonzero Let_def)

lemma irq_rate_elapsed:
  "\<exists>ip fp. irq_rate tps c (irq_elapsed now st) = Inr (ip, fp)"
  by (rule irq_rate_total) (rule irq_elapsed_nonzero)

lemma irq_callback_zero:
  "count info = 0 \<Longrightarrow>
   irq_callback cfg now irq info fm = (info\<lparr>start := now, count := 0, time := 0\<rparr>, Inr (fm, 0))"
  by (simp add: irq_callback_def Let_def)

lemma irq_callback_fst:
  "fst (irq_callback cfg now irq info fm) = info\<lparr>start := now, count := 0, time := 0\<rparr>"
  by (auto simp: irq_callback_def Let_def split: sum.splits prod.splits)

lemma irq_callback_row:
  assumes nz: "count info \<noteq> 0"
    and fit: "length (irq_row cfg now irq info) < IRQ_LINELEN"
  shows "\<exists>f'. irq_callback cfg now irq info (f, m) =
           (info\<lparr>start := now, count := 0, time := 0\<rparr>,
            Inr ((f', memcpy m (buffer f) (take (remaining f) (drop (offset f) (irq_row cfg now irq info)))),
                 if length (take (remaining f) (drop (offset f) (irq_row cfg now irq info))) < remaining f
                 then 0 else 1)) \<and>
           offset f' = offset f - length (irq_row cfg now irq info) \<and>
           ncopied f' = ncopied f + length (take (remaining f) (drop (offset f) (irq_row cfg now irq info))) \<and>
           buffer f' = buffer f + length (take (remaining f) (drop (offset f) (irq_row cfg now irq info))) \<and>
           remaining f' = remaining f - length (take (remaining f) (drop (offset f) (irq_row cfg now irq info)))"
proof -
  obtain ip fp where r: "irq_rate (TICK_PER_SEC cfg) (count info) (irq_elapsed now (start info)) = Inr (ip, fp)"
    using irq_rate_elapsed by blast
  define row where "row = irq_row cfg now irq info"
  have row: "row = IRQ_FMT (word_of_int irq) (handler info) (arg info) (irq_count (count info))
            ip fp (tv_nsec (up_perf_convert cfg (time info)) div 1000)"
    by (simp add: row_def irq_row_def r)
  have sn: "snprintf (line f) IRQ_LINELEN row = (row @ [CHR 0x00] @ drop (length row + 1) (line f), length row)"
    using fit by (simp add: snprintf_fit row_def)
  show ?thesis
    using nz unfolding row_def [symmetric]
    by (simp add: irq_callback_def Let_def r row [symmetric] sn procfs_memcpy_fit)
qed

lemma take_drop_row:
  "take r (drop off (row @ rest)) =
     take r (drop off row) @ take (r - length (take r (drop off row))) (drop (off - length row) rest)"
  by (auto simp: min_def take_all_iff)

lemma irq_foreach_rows:
  "rows_fit cfg clk rs \<Longrightarrow>
   \<exists>rs' f'. irq_foreach (\<lambda>k. irq_callback cfg (clk k)) rs (f, m) =
       (rs', Inr (f', memcpy m (buffer f)
                        (take (remaining f) (drop (offset f) (concat (irq_rows cfg clk rs)))))) \<and>
     ncopied f' = ncopied f + length (take (remaining f) (drop (offset f) (concat (irq_rows cfg clk rs)))) \<and>
     buffer f' = buffer f + length (take (remaining f) (drop (offset f) (concat (irq_rows cfg clk rs)))) \<and>
     remaining f' = remaining f - length (take (remaining f) (drop (offset f) (concat (irq_rows cfg clk rs))))"
proof (induction rs arbitrary: clk f m)
  case Nil
  then show ?case by simp
next
  case (Cons p rs)
  obtain irq info where p: "p = (irq, info)" by (cases p)
  let ?clk = "\<lambda>k. clk (Suc k)"
  have fit_rest: "rows_fit cfg ?clk rs"
    using Cons.prems by (simp add: p rows_fit_def)
  show ?case
  proof (cases "count info = 0")
    case True
    from Cons.IH [OF fit_rest, of f m] obtain rs' f' where
      "irq_foreach (\<lambda>k. irq_callback cfg (?clk k)) rs (f, m) =
         (rs', Inr (f', memcpy m (buffer f)
            (take (remaining f) (drop (offset f) (concat (irq_rows cfg ?clk rs))))))"
      "ncopied f' = ncopied f + length (take (remaining f) (drop (offset f) (concat (irq_rows cfg ?clk rs))))"
      "buffer f' = buffer f + length (take (remaining f) (drop (offset f) (concat (irq_rows cfg ?clk rs))))"
      "remaining f' = remaining f - length (take (remaining f) (drop (offset f) (concat (irq_rows cfg ?clk rs))))"
      by blast
    then show ?thesis using True by (simp add: p irq_callback_zero)
  next
    case False
    define row where "row = irq_row cfg (clk 0) irq info"
    define rest where "rest = concat (irq_rows cfg ?clk rs)"
    define D1 where "D1 = take (remaining f) (drop (offset f) row)"
    have fit: "length (irq_row cfg (clk 0) irq info) < IRQ_LINELEN"
      using Cons.prems False by (simp add: p rows_fit_def)
    from irq_callback_row [OF False fit, of f m] obtain f1 where
      cb: "irq_callback cfg (clk 0) irq info (f, m) =
             (info\<lparr>start := clk 0, count := 0, time := 0\<rparr>,
              Inr ((f1, memcpy m (buffer f) D1), if length D1 < remaining f then 0 else 1))"
      and f1: "offset f1 = offset f - length row" "ncopied f1 = ncopied f + length D1"
        "buffer f1 = buffer f + length D1" "remaining f1 = remaining f - length D1"
      unfolding row_def [symmetric] D1_def [symmetric] by blast
    have D: "take (remaining f) (drop (offset f) (concat (irq_rows cfg clk (p # rs)))) =
               D1 @ take (remaining f1) (drop (offset f1) rest)"
      using False by (simp add: p row_def [symmetric] rest_def [symmetric] take_drop_row D1_def f1 min_def)
    show ?thesis
    proof (cases "length D1 < remaining f")
      case True
      from Cons.IH [OF fit_rest, of f1 "memcpy m (buffer f) D1"] obtain rs' f' where
        ih: "irq_foreach (\<lambda>k. irq_callback cfg (?clk k)) rs (f1, memcpy m (buffer f) D1) =
           (rs', Inr (f', memcpy (memcpy m (buffer f) D1) (buffer f1)
              (take (remaining f1) (drop (offset f1) rest))))"
        "ncopied f' = ncopied f1 + length (take (remaining f1) (drop (offset f1) rest))"
        "buffer f' = buffer f1 + length (take (remaining f1) (drop (offset f1) rest))"
        "remaining f' = remaining f1 - length (take (remaining f1) (drop (offset f1) rest))"
        unfolding rest_def by blast
      show ?thesis
        unfolding D using True ih
        by (simp add: p cb f1 memcpy_append)
    next
      case stop: False
      then have "remaining f1 = 0" by (simp add: f1)
      then show ?thesis
        unfolding D using stop by (simp add: p cb f1)
    qed
  qed
qed

lemma irq_foreach_registry:
  "\<exists>n. (rs \<noteq> [] \<longrightarrow> 0 < n) \<and> n \<le> length rs \<and>
       fst (irq_foreach (\<lambda>k. irq_callback cfg (clk k)) rs fm) = reset_first clk n rs"
proof (induction rs arbitrary: clk fm)
  case Nil
  then show ?case by simp
next
  case (Cons p rs)
  obtain irq info where p: "p = (irq, info)" by (cases p)
  let ?clk = "\<lambda>k. clk (Suc k)"
  let ?info' = "info\<lparr>start := clk 0, count := 0, time := 0\<rparr>"
  obtain r where cb: "irq_callback cfg (clk 0) irq info fm = (?info', r)"
    using irq_callback_fst [of cfg "clk 0" irq info fm] by (cases "irq_callback cfg (clk 0) irq info fm") simp
  have one: "reset_first clk (Suc 0) (p # rs) = (irq, ?info') # rs" by (simp add: p)
  show ?case
  proof (cases r)
    case (Inl e)
    then have "fst (irq_foreach (\<lambda>k. irq_callback cfg (clk k)) (p # rs) fm) = reset_first clk (Suc 0) (p # rs)"
      by (simp add: p cb)
    then show ?thesis by (intro exI [of _ "Suc 0"]) simp
  next
    case (Inr x)
    obtain fm' ret where x: "x = (fm', ret)" by (cases x)
    show ?thesis
    proof (cases "ret = 0")
      case False
      then have "fst (irq_foreach (\<lambda>k. irq_callback cfg (clk k)) (p # rs) fm) = reset_first clk (Suc 0) (p # rs)"
        by (simp add: p cb Inr x)
      then show ?thesis by (intro exI [of _ "Suc 0"]) simp
    next
      case True
      from Cons.IH [of ?clk fm'] obtain n where
        n: "n \<le> length rs" "fst (irq_foreach (\<lambda>k. irq_callback cfg (?clk k)) rs fm') = reset_first ?clk n rs"
        by blast
      have "fst (irq_foreach (\<lambda>k. irq_callback cfg (clk k)) (p # rs) fm) = reset_first clk (Suc n) (p # rs)"
        using True n(2) by (cases "irq_foreach (\<lambda>k. irq_callback cfg (?clk k)) rs fm'") (simp add: p cb Inr x)
      then show ?thesis using n(1) by (intro exI [of _ "Suc n"]) simp
    qed
  qed
qed

lemma length_HDR_FMT: "length HDR_FMT = 47"
  by (simp add: HDR_FMT_def)

lemma irq_read_report:
  assumes priv: "f_priv (files s filep) = Some a"
    and sess: "deref (heap s) a = Some f0"
    and fit: "rows_fit cfg clk (g_irqvector s)"
  shows "\<exists>s' f'. irq_read cfg clk filep buf buflen s =
           (s', Inr (length (take buflen (drop (f_pos (files s filep)) (irq_report cfg clk (g_irqvector s)))))) \<and>
         umem s' = memcpy (umem s) buf (take buflen (drop (f_pos (files s filep)) (irq_report cfg clk (g_irqvector s)))) \<and>
         files s' = (files s)(filep := (files s filep)\<lparr>f_pos := f_pos (files s filep) +
            length (take buflen (drop (f_pos (files s filep)) (irq_report cfg clk (g_irqvector s))))\<rparr>) \<and>
         heap s' = (heap s)[a := Some f'] \<and>
         (\<exists>n. (g_irqvector s \<noteq> [] \<longrightarrow> 0 < n) \<and> n \<le> length (g_irqvector s) \<and>
              g_irqvector s' = reset_first clk n (g_irqvector s))"
proof -
  define off where "off = f_pos (files s filep)"
  define rest where "rest = concat (irq_rows cfg clk (g_irqvector s))"
  define D0 where "D0 = take buflen (drop off HDR_FMT)"
  define f1 where "f1 = f0\<lparr>offset := off, buffer := buf, remaining := buflen\<rparr>"
  define line1 where "line1 = HDR_FMT @ [CHR 0x00] @ drop (length HDR_FMT + 1) (line f1)"
  define f2 where "f2 = f1\<lparr>line := line1, offset := off - length HDR_FMT, ncopied := length D0,
      buffer := buf + length D0, remaining := buflen - length D0\<rparr>"
  define D2 where "D2 = take (remaining f2) (drop (offset f2) rest)"
  have f1: "buffer f1 = buf" "remaining f1 = buflen" "offset f1 = off"
    by (simp_all add: f1_def)
  have sn: "snprintf (line f1) IRQ_LINELEN HDR_FMT = (line1, length HDR_FMT)"
    by (simp add: snprintf_fit length_HDR_FMT IRQ_LINELEN_def line1_def)
  have pm: "procfs_memcpy line1 (length HDR_FMT) (umem s) buf buflen off =
              Inr (memcpy (umem s) buf D0, off - length HDR_FMT, length D0)"
    unfolding line1_def D0_def by (rule procfs_memcpy_fit)
  from irq_foreach_rows [OF fit, of f2 "memcpy (umem s) buf D0"] obtain rs' f3 where
    fe: "irq_foreach (\<lambda>k. irq_callback cfg (clk k)) (g_irqvector s) (f2, memcpy (umem s) buf D0) =
           (rs', Inr (f3, memcpy (memcpy (umem s) buf D0) (buffer f2) D2))"
    and f3: "ncopied f3 = ncopied f2 + length D2"
    unfolding D2_def rest_def by blast
  have D: "take buflen (drop off (irq_report cfg clk (g_irqvector s))) = D0 @ D2"
    by (simp add: irq_report_def rest_def [symmetric] take_drop_row D0_def D2_def f2_def min_def)
  have m: "memcpy (memcpy (umem s) buf D0) (buffer f2) D2 = memcpy (umem s) buf (D0 @ D2)"
    by (simp add: f2_def memcpy_append)
  have n: "ncopied f3 = length (D0 @ D2)"
    by (simp add: f3 f2_def)
  have "irq_read cfg clk filep buf buflen s =
          (s\<lparr>g_irqvector := rs',
             files := (files s)(filep := (files s filep)\<lparr>f_pos := off + length (D0 @ D2)\<rparr>),
             heap := (heap s)[a := Some f3],
             umem := memcpy (umem s) buf (D0 @ D2)\<rparr>, Inr (length (D0 @ D2)))"
    unfolding irq_read_def
    by (simp add: priv sess Let_def off_def [symmetric] f1_def [symmetric] sn f1 pm f2_def [symmetric] fe m n
        del: length_append)
  moreover have "\<exists>n. (g_irqvector s \<noteq> [] \<longrightarrow> 0 < n) \<and> n \<le> length (g_irqvector s) \<and>
              rs' = reset_first clk n (g_irqvector s)"
    using irq_foreach_registry [of "g_irqvector s" cfg clk "(f2, memcpy (umem s) buf D0)"] by (simp add: fe)
  ultimately show ?thesis
    unfolding off_def [symmetric] D
    apply (intro exI [of _ "s\<lparr>g_irqvector := rs',
             files := (files s)(filep := (files s filep)\<lparr>f_pos := off + length (D0 @ D2)\<rparr>),
             heap := (heap s)[a := Some f3],
             umem := memcpy (umem s) buf (D0 @ D2)\<rparr>"] exI [of _ f3])
    by simp
qed

lemma procfs_memcpy_fault:
  "procfs_memcpy src srclen m dest destlen off = Inl e \<Longrightarrow> e = ScratchOverrun"
  by (auto simp: procfs_memcpy_def Let_def split: if_splits)

lemma irq_callback_fault:
  "snd (irq_callback cfg now irq info fm) = Inl e \<Longrightarrow> e = ScratchOverrun"
proof -
  assume a: "snd (irq_callback cfg now irq info fm) = Inl e"
  obtain ip fp where r: "irq_rate (TICK_PER_SEC cfg) (count info) (irq_elapsed now (start info)) = Inr (ip, fp)"
    using irq_rate_elapsed by blast
  show ?thesis
    using a by (auto simp: irq_callback_def Let_def r split: if_splits sum.splits prod.splits dest: procfs_memcpy_fault)
qed

lemma unat_irq_elapsed: "unat (irq_elapsed now st) = max 1 (unat (now - st))"
proof (cases "now - st = 0")
  case True
  then show ?thesis by (simp add: irq_elapsed_def)
next
  case False
  then have "unat (now - st) \<noteq> 0" by (simp add: unsigned_eq_0_iff)
  then show ?thesis using False by (simp add: irq_elapsed_def Let_def max_def)
qed

lemma irq_read_unfold:
  assumes priv: "f_priv (files s filep) = Some a"
    and sess: "deref (heap s) a = Some f0"
  shows "irq_read cfg clk filep buf buflen s =
     (case irq_foreach (\<lambda>k. irq_callback cfg (clk k)) (g_irqvector s)
            (after_header f0 (f_pos (files s filep)) buf buflen,
             memcpy (umem s) buf (take buflen (drop (f_pos (files s filep)) HDR_FMT))) of
        (reg', Inl e) \<Rightarrow> (s\<lparr>g_irqvector := reg'\<rparr>, Inl e)
      | (reg', Inr (irqfile3, m3)) \<Rightarrow>
          (s\<lparr>g_irqvector := reg',
             files := (files s)(filep := (files s filep)
                        \<lparr>f_pos := f_pos (files s filep) + ncopied irqfile3\<rparr>),
             heap := (heap s)[a := Some irqfile3],
             umem := m3\<rparr>,
           Inr (ncopied irqfile3)))"
proof -
  define off where "off = f_pos (files s filep)"
  define f1 where "f1 = f0\<lparr>offset := off, buffer := buf, remaining := buflen\<rparr>"
  define line1 where "line1 = HDR_FMT @ [CHR 0x00] @ drop (length HDR_FMT + 1) (line f1)"
  have f1: "buffer f1 = buf" "remaining f1 = buflen" "offset f1 = off"
    by (simp_all add: f1_def)
  have sn: "snprintf (line f1) IRQ_LINELEN HDR_FMT = (line1, length HDR_FMT)"
    by (simp add: snprintf_fit length_HDR_FMT IRQ_LINELEN_def line1_def)
  have pm: "procfs_memcpy line1 (length HDR_FMT) (umem s) buf buflen off =
              Inr (memcpy (umem s) buf (take buflen (drop off HDR_FMT)), off - length HDR_FMT,
                   length (take buflen (drop off HDR_FMT)))"
    unfolding line1_def by (rule procfs_memcpy_fit)
  have f2: "f1\<lparr>line := line1, offset := off - length HDR_FMT,
               ncopied := length (take buflen (drop off HDR_FMT)),
               buffer := buf + length (take buflen (drop off HDR_FMT)),
               remaining := buflen - length (take buflen (drop off HDR_FMT))\<rparr> =
            after_header f0 off buf buflen"
    by (simp add: after_header_def f1_def line1_def)
  have "irq_read cfg clk filep buf buflen s =
     (case irq_foreach (\<lambda>k. irq_callback cfg (clk k)) (g_irqvector s)
            (after_header f0 off buf buflen, memcpy (umem s) buf (take buflen (drop off HDR_FMT))) of
        (reg', Inl e) \<Rightarrow> (s\<lparr>g_irqvector := reg'\<rparr>, Inl e)
      | (reg', Inr (irqfile3, m3)) \<Rightarrow>
          (s\<lparr>g_irqvector := reg',
             files := (files s)(filep := (files s filep)\<lparr>f_pos := off + ncopied irqfile3\<rparr>),
             heap := (heap s)[a := Some irqfile3],
             umem := m3\<rparr>,
           Inr (ncopied irqfile3)))"
    unfolding irq_read_def
    by (simp add: priv sess Let_def off_def [symmetric] f1_def [symmetric] sn f1 pm f2
        del: length_take)
  then show ?thesis unfolding off_def .
qed

lemma irq_read_invalid:
  "f_priv (files s filep) = None \<or> (\<exists>a. f_priv (files s filep) = Some a \<and> deref (heap s) a = None) \<Longrightarrow>
   irq_read cfg clk filep buf buflen s = (s, Inl AssertFailed)"
  by (auto simp: irq_read_def)

lemma reset_first_0 [simp]: "reset_first clk 0 rs = rs"
  by simp

lemma irq_read_registry:
  "\<exists>n. n \<le> length (g_irqvector s) \<and>
       g_irqvector (fst (irq_read cfg clk filep buf buflen s)) = reset_first clk n (g_irqvector s)"
proof (cases "\<exists>a f0. f_priv (files s filep) = Some a \<and> deref (heap s) a = Some f0")
  case True
  then obtain a f0 where v: "f_priv (files s filep) = Some a" "deref (heap s) a = Some f0" by blast
  let ?fm = "(after_header f0 (f_pos (files s filep)) buf buflen,
             memcpy (umem s) buf (take buflen (drop (f_pos (files s filep)) HDR_FMT)))"
  obtain n where n: "n \<le> length (g_irqvector s)"
      "fst (irq_foreach (\<lambda>k. irq_callback cfg (clk k)) (g_irqvector s) ?fm) = reset_first clk n (g_irqvector s)"
    using irq_foreach_registry [of "g_irqvector s" cfg clk ?fm] by blast
  have "g_irqvector (fst (irq_read cfg clk filep buf buflen s)) =
          fst (irq_foreach (\<lambda>k. irq_callback cfg (clk k)) (g_irqvector s) ?fm)"
    by (simp add: irq_read_unfold [OF v] split: prod.splits sum.splits)
  then show ?thesis using n by auto
next
  case False
  then have "irq_read cfg clk filep buf buflen s = (s, Inl AssertFailed)"
    by (intro irq_read_invalid) (cases "f_priv (files s filep)"; cases "deref (heap s) (the (f_priv (files s filep)))"; auto)
  then show ?thesis by (intro exI [of _ 0]) simp
qed

lemma irq_read_first_reset:
  assumes priv: "f_priv (files s filep) = Some a"
    and sess: "deref (heap s) a = Some f0"
    and reg: "g_irqvector s = (irq, info) # rs"
  shows "\<exists>n. n \<le> length rs \<and>
       g_irqvector (fst (irq_read cfg clk filep buf buflen s)) =
         (irq, info\<lparr>start := clk 0, count := 0, time := 0\<rparr>) # reset_first (\<lambda>k. clk (Suc k)) n rs"
proof -
  let ?fm = "(after_header f0 (f_pos (files s filep)) buf buflen,
             memcpy (umem s) buf (take buflen (drop (f_pos (files s filep)) HDR_FMT)))"
  obtain n where n: "0 < n" "n \<le> length (g_irqvector s)"
      "fst (irq_foreach (\<lambda>k. irq_callback cfg (clk k)) (g_irqvector s) ?fm) = reset_first clk n (g_irqvector s)"
    using irq_foreach_registry [of "g_irqvector s" cfg clk ?fm] reg by auto
  have g: "g_irqvector (fst (irq_read cfg clk filep buf buflen s)) =
          fst (irq_foreach (\<lambda>k. irq_callback cfg (clk k)) (g_irqvector s) ?fm)"
    by (simp add: irq_read_unfold [OF priv sess] split: prod.splits sum.splits)
  obtain k where k: "n = Suc k" using n(1) by (cases n) auto
  show ?thesis
    using n(2,3) by (intro exI [of _ k]) (simp add: g k reg)
qed

lemma irq_read_frame:
  "(q \<noteq> filep \<longrightarrow> files (fst (irq_read cfg clk filep buf buflen s)) q = files s q) \<and>
   f_priv (files (fst (irq_read cfg clk filep buf buflen s)) filep) = f_priv (files s filep) \<and>
   (f_priv (files s filep) \<noteq> Some b \<longrightarrow>
      deref (heap (fst (irq_read cfg clk filep buf buflen s))) b = deref (heap s) b)"
proof (cases "\<exists>a f0. f_priv (files s filep) = Some a \<and> deref (heap s) a = Some f0")
  case True
  then obtain a f0 where v: "f_priv (files s filep) = Some a" "deref (heap s) a = Some f0" by blast
  show ?thesis
    by (auto simp: irq_read_unfold [OF v] v deref_def split: prod.splits sum.splits)
next
  case False
  then have "irq_read cfg clk filep buf buflen s = (s, Inl AssertFailed)"
    by (intro irq_read_invalid) (cases "f_priv (files s filep)"; cases "deref (heap s) (the (f_priv (files s filep)))"; auto)
  then show ?thesis by simp
qed

lemma irq_read_f_pos:
  assumes "irq_read cfg clk filep buf buflen s = (s', Inr n)"
  shows "f_pos (files s' filep) = f_pos (files s filep) + n"
proof (cases "\<exists>a f0. f_priv (files s filep) = Some a \<and> deref (heap s) a = Some f0")
  case True
  then obtain a f0 where v: "f_priv (files s filep) = Some a" "deref (heap s) a = Some f0" by blast
  show ?thesis
    using assms by (auto simp: irq_read_unfold [OF v] split: prod.splits sum.splits)
next
  case False
  then have "irq_read cfg clk filep buf buflen s = (s, Inl AssertFailed)"
    by (intro irq_read_invalid) (cases "f_priv (files s filep)"; cases "deref (heap s) (the (f_priv (files s filep)))"; auto)
  then show ?thesis using assms by simp
qed

lemma procfs_memcpy_counts:
  "procfs_memcpy src srclen m dest destlen off = Inr (m', off', copysize) \<Longrightarrow> copysize \<le> destlen"
  by (auto simp: procfs_memcpy_def Let_def split: if_splits)

lemma procfs_memcpy_full:
  "procfs_memcpy src srclen m dest 0 off = Inr (m, off - srclen, 0)"
  by (simp add: procfs_memcpy_def)

lemma irq_callback_signal:
  assumes cb: "irq_callback cfg now irq info (f, m) = (info', Inr ((f', m'), ret))"
    and nz: "count info \<noteq> 0"
  shows "(ret = 1 \<longleftrightarrow> remaining f' = 0) \<and> (ret = 0 \<longleftrightarrow> 0 < remaining f') \<and>
         remaining f' \<le> remaining f \<and>
         ncopied f' = ncopied f + (remaining f - remaining f') \<and>
         buffer f' = buffer f + (remaining f - remaining f')"
proof -
  obtain ip fp where r: "irq_rate (TICK_PER_SEC cfg) (count info) (irq_elapsed now (start info)) = Inr (ip, fp)"
    using irq_rate_elapsed by blast
  show ?thesis
    using cb nz
    by (auto simp: irq_callback_def Let_def r split: if_splits sum.splits prod.splits
        dest!: procfs_memcpy_counts)
qed

lemma irq_callback_full:
  assumes nz: "count info \<noteq> 0" and full: "remaining f = 0"
  shows "\<exists>f'. irq_callback cfg now irq info (f, m) =
           (info\<lparr>start := now, count := 0, time := 0\<rparr>, Inr ((f', m), 1)) \<and>
         ncopied f' = ncopied f \<and> remaining f' = 0"
proof -
  obtain ip fp where r: "irq_rate (TICK_PER_SEC cfg) (count info) (irq_elapsed now (start info)) = Inr (ip, fp)"
    using irq_rate_elapsed by blast
  show ?thesis
    using nz full
    by (simp add: irq_callback_def Let_def r procfs_memcpy_full split: prod.splits)
qed

lemma irq_foreach_full:
  "remaining f = 0 \<Longrightarrow>
   \<exists>rs' f'. irq_foreach (\<lambda>k. irq_callback cfg (clk k)) rs (f, m) = (rs', Inr (f', m)) \<and>
     ncopied f' = ncopied f"
proof (induction rs arbitrary: clk)
  case Nil
  then show ?case by simp
next
  case (Cons p rs)
  obtain irq info where p: "p = (irq, info)" by (cases p)
  show ?case
  proof (cases "count info = 0")
    case True
    from Cons.IH [OF Cons.prems, of "\<lambda>k. clk (Suc k)"] obtain rs' f' where
      "irq_foreach (\<lambda>k. irq_callback cfg (clk (Suc k))) rs (f, m) = (rs', Inr (f', m))"
      "ncopied f' = ncopied f" by blast
    then show ?thesis using True by (simp add: p irq_callback_zero)
  next
    case False
    from irq_callback_full [OF False Cons.prems, of cfg "clk 0" irq m] obtain f' where
      "irq_callback cfg (clk 0) irq info (f, m) =
           (info\<lparr>start := clk 0, count := 0, time := 0\<rparr>, Inr ((f', m), 1))"
      "ncopied f' = ncopied f" by blast
    then show ?thesis by (simp add: p)
  qed
qed

lemma irq_foreach_full_first:
  "remaining f = 0 \<Longrightarrow> count info \<noteq> 0 \<Longrightarrow>
   fst (irq_foreach (\<lambda>k. irq_callback cfg (clk k)) ((irq, info) # rs) (f, m)) =
     (irq, info\<lparr>start := clk 0, count := 0, time := 0\<rparr>) # rs"
  using irq_callback_full [of info f cfg "clk 0" irq m] by auto

lemma irq_foreach_complete:
  "rows_fit cfg clk rs \<Longrightarrow>
   length (concat (irq_rows cfg clk rs)) - offset f < remaining f \<Longrightarrow>
   fst (irq_foreach (\<lambda>k. irq_callback cfg (clk k)) rs (f, m)) = reset_first clk (length rs) rs"
proof (induction rs arbitrary: clk f m)
  case Nil
  then show ?case by simp
next
  case (Cons p rs)
  obtain irq info where p: "p = (irq, info)" by (cases p)
  let ?clk = "\<lambda>k. clk (Suc k)"
  have fit_rest: "rows_fit cfg ?clk rs"
    using Cons.prems(1) by (simp add: p rows_fit_def)
  show ?case
  proof (cases "count info = 0")
    case True
    have "length (concat (irq_rows cfg ?clk rs)) - offset f < remaining f"
      using Cons.prems(2) True by (simp add: p)
    from Cons.IH [OF fit_rest this, of m] show ?thesis
      using True
      by (cases "irq_foreach (\<lambda>k. irq_callback cfg (?clk k)) rs (f, m)") (simp add: p irq_callback_zero)
  next
    case False
    define row where "row = irq_row cfg (clk 0) irq info"
    define D1 where "D1 = take (remaining f) (drop (offset f) row)"
    have fit: "length (irq_row cfg (clk 0) irq info) < IRQ_LINELEN"
      using Cons.prems(1) False by (simp add: p rows_fit_def)
    from irq_callback_row [OF False fit, of f m] obtain f1 where
      cb: "irq_callback cfg (clk 0) irq info (f, m) =
             (info\<lparr>start := clk 0, count := 0, time := 0\<rparr>,
              Inr ((f1, memcpy m (buffer f) D1), if length D1 < remaining f then 0 else 1))"
      and f1: "offset f1 = offset f - length row" "remaining f1 = remaining f - length D1"
      unfolding row_def [symmetric] D1_def [symmetric] by blast
    have total: "length row + length (concat (irq_rows cfg ?clk rs)) - offset f < remaining f"
      using Cons.prems(2) False by (simp add: p row_def)
    have lD1: "length D1 = length row - offset f"
      using total by (simp add: D1_def min_def)
    have go: "length D1 < remaining f" using total lD1 by simp
    have "length (concat (irq_rows cfg ?clk rs)) - offset f1 < remaining f1"
      using total by (simp add: f1 lD1)
    from Cons.IH [OF fit_rest this, of "memcpy m (buffer f) D1"] show ?thesis
      using go
      by (cases "irq_foreach (\<lambda>k. irq_callback cfg (?clk k)) rs (f1, memcpy m (buffer f) D1)")
         (simp add: p cb)
  qed
qed

lemma irq_rows_reset:
  "irq_rows cfg clk' (reset_first clk (length rs) rs) = []"
  by (induction rs arbitrary: clk clk') auto

lemma irq_read_complete:
  assumes priv: "f_priv (files s filep) = Some a"
    and sess: "deref (heap s) a = Some f0"
    and fit: "rows_fit cfg clk (g_irqvector s)"
    and room: "length (irq_report cfg clk (g_irqvector s)) - f_pos (files s filep) < buflen"
  shows "g_irqvector (fst (irq_read cfg clk filep buf buflen s)) =
           reset_first clk (length (g_irqvector s)) (g_irqvector s)"
proof -
  let ?f2 = "after_header f0 (f_pos (files s filep)) buf buflen"
  let ?fm = "(?f2, memcpy (umem s) buf (take buflen (drop (f_pos (files s filep)) HDR_FMT)))"
  have g: "g_irqvector (fst (irq_read cfg clk filep buf buflen s)) =
          fst (irq_foreach (\<lambda>k. irq_callback cfg (clk k)) (g_irqvector s) ?fm)"
    by (simp add: irq_read_unfold [OF priv sess] split: prod.splits sum.splits)
  have "length (concat (irq_rows cfg clk (g_irqvector s))) - offset ?f2 < remaining ?f2"
    using room by (auto simp: after_header_def irq_report_def min_def)
  from irq_foreach_complete [OF fit this] show ?thesis by (simp add: g)
qed

lemma take_take_drop:
  "take n (drop p R) @ take k (drop (p + length (take n (drop p R))) R) = take (n + k) (drop p R)"
proof -
  have "drop (p + length (take n (drop p R))) R = drop n (drop p R)"
    by (cases "n \<le> length R - p") (simp_all add: min_def add.commute)
  then show ?thesis by (simp add: take_add)
qed

lemma capacity_Cons [simp]: "capacity ((clk, reg, buf, buflen) # calls) = buflen + capacity calls"
  by (simp add: capacity_def)

lemma capacity_Nil [simp]: "capacity [] = 0"
  by (simp add: capacity_def)

lemma irq_read_seq_report:
  assumes priv: "f_priv (files s filep) = Some a"
    and sess: "deref (heap s) a = Some f0"
    and same: "list_all (same_report cfg R) calls"
  shows "\<exists>s'. irq_read_seq cfg filep calls s =
           (s', Inr (take (capacity calls) (drop (f_pos (files s filep)) R))) \<and>
         f_pos (files s' filep) =
           f_pos (files s filep) + length (take (capacity calls) (drop (f_pos (files s filep)) R))"
  using priv sess same
proof (induction calls arbitrary: s f0)
  case Nil
  then show ?case by simp
next
  case (Cons c calls)
  obtain clk reg buf buflen where c: "c = (clk, reg, buf, buflen)" by (cases c)
  let ?s0 = "s\<lparr>g_irqvector := reg\<rparr>"
  let ?p = "f_pos (files s filep)"
  define D where "D = take buflen (drop ?p R)"
  have head: "same_report cfg R (clk, reg, buf, buflen)" and rest: "list_all (same_report cfg R) calls"
    using Cons.prems(3) by (simp_all add: c)
  have R: "irq_report cfg clk reg = R" and fit: "rows_fit cfg clk (g_irqvector ?s0)"
    using head by (simp_all add: same_report_def)
  have a: "a < length (heap s)"
    using Cons.prems(2) by (simp add: deref_def split: if_splits)
  have priv0: "f_priv (files ?s0 filep) = Some a" and sess0: "deref (heap ?s0) a = Some f0"
    using Cons.prems(1,2) by simp_all
  from irq_read_report [OF priv0 sess0 fit, of buf buflen] obtain s1 f1 where
    rd: "irq_read cfg clk filep buf buflen ?s0 = (s1, Inr (length D))"
    and m1: "umem s1 = memcpy (umem s) buf D"
    and fl: "files s1 = (files s)(filep := (files s filep)\<lparr>f_pos := ?p + length D\<rparr>)"
    and hp: "heap s1 = (heap s)[a := Some f1]"
    unfolding D_def by (auto simp: R)
  have priv1: "f_priv (files s1 filep) = Some a" using Cons.prems(1) by (simp add: fl)
  have sess1: "deref (heap s1) a = Some f1" using a by (simp add: hp deref_def)
  have p1: "f_pos (files s1 filep) = ?p + length D" by (simp add: fl)
  from Cons.IH [OF priv1 sess1 rest] obtain s2 where
    sq: "irq_read_seq cfg filep calls s1 = (s2, Inr (take (capacity calls) (drop (?p + length D) R)))"
    and p2: "f_pos (files s2 filep) = ?p + length D + length (take (capacity calls) (drop (?p + length D) R))"
    by (auto simp: p1)
  have out: "D @ take (capacity calls) (drop (?p + length D) R) = take (buflen + capacity calls) (drop ?p R)"
    unfolding D_def by (rule take_take_drop)
  have "irq_read_seq cfg filep (c # calls) s = (s2, Inr (D @ take (capacity calls) (drop (?p + length D) R)))"
    by (simp add: c rd sq m1)
  moreover have "f_pos (files s2 filep) = ?p + length (D @ take (capacity calls) (drop (?p + length D) R))"
    using p2 by simp
  ultimately show ?case
    unfolding out by (simp add: c)
qed

lemma replicate_numeral: "replicate (numeral v) c = c # replicate (numeral v - 1) c"
  by (simp add: numeral_eq_Suc)

lemmas fmt_eval = IRQ_FMT_def pad_def dec.simps hex.simps digit_def replicate_numeral

lemma demo_rate_120: "irq_rate 100 120 100 = Inr (120, 0)"
  by (simp add: irq_rate_def udiv64_def Let_def)

lemma demo_row_120:
  "irq_row demo_cfg 1100 5 (demo_rec 120 250) =
     ''  5 08001000 00000000        120  120.000  250'' @ [CHR 0x0A]"
  by (simp add: irq_row_def demo_cfg_def demo_rec_def irq_elapsed_def demo_rate_120
        irq_count_def ULONG_MAX_def fmt_eval)

lemma rate_one_second_div:
  fixes e :: "32 word"
  assumes "e \<noteq> 0"
  shows "((120 :: 64 word) * ucast e) div ucast e = 120"
proof -
  let ?x = "ucast e :: 64 word"
  have lt: "unat ?x < 2 ^ 32"
    using unsigned_less [of e, where ?'a = nat] by (simp add: unat_ucast_32_64)
  have pos: "0 < unat ?x"
    using assms ucast_up_nonzero [of e] by (simp add: unsigned_eq_0_iff word_greater_zero_iff unat_gt_0)
  have "unat (120 * ?x) = 120 * unat ?x"
    using lt by (simp add: unat_word_ariths)
  then have "unat ((120 * ?x) div ?x) = unat (120 :: 64 word)"
    using pos by (simp add: unat_div)
  then show ?thesis
    by (simp only: word_eq_iff_unsigned [where ?'a = nat])
qed

lemma rate_one_second:
  fixes e :: "32 word"
  assumes "e \<noteq> 0"
  shows "irq_rate (ucast e) 120 e = Inr (120, 0)"
  using assms by (simp add: irq_rate_def udiv64_def Let_def ucast_up_nonzero rate_one_second_div)

lemma row_one_second:
  assumes tps: "TICK_PER_SEC cfg = ucast e" and e: "e \<noteq> 0" and w: "now - st = e"
    and usec: "tv_nsec (up_perf_convert cfg t) div 1000 = 250"
  shows "irq_row cfg now 5 \<lparr>handler = 0x08001000, arg = 0, start = st, count = 120, time = t\<rparr> =
           ''  5 08001000 00000000        120  120.000  250'' @ [CHR 0x0A]"
  using e by (simp add: irq_row_def tps irq_elapsed_def w rate_one_second usec
        irq_count_def ULONG_MAX_def fmt_eval)

lemma mem_read_memcpy_len: "length xs = n \<Longrightarrow> mem_read (memcpy m d xs) d n = xs"
  by auto

lemma deref_update: "deref h a = Some f \<Longrightarrow> deref (h[a := Some f']) a = Some f'"
  by (simp add: deref_def split: if_splits)

lemma demo_rec_fields:
  "count (demo_rec c t) = c" "time (demo_rec c t) = t" "start (demo_rec c t) = 1000"
  "handler (demo_rec c t) = 0x08001000" "arg (demo_rec c t) = 0"
  by (simp_all add: demo_rec_def)

lemma demo_sys_fields:
  "f_priv (files (demo_sys reg) 0) = Some 0" "f_pos (files (demo_sys reg) 0) = 0"
  "deref (heap (demo_sys reg)) 0 = Some zeroed" "g_irqvector (demo_sys reg) = reg"
  by (simp_all add: demo_sys_def deref_def)

lemma demo_row_120_len: "length (irq_row demo_cfg 1100 5 (demo_rec 120 250)) = 47"
  by (simp add: demo_row_120)

lemma demo_fit_120: "rows_fit demo_cfg demo_clk [(5, demo_rec 120 250)]"
  by (simp add: rows_fit_def demo_clk_def demo_row_120_len IRQ_LINELEN_def demo_rec_fields)

lemma demo_report_120:
  "irq_report demo_cfg demo_clk [(5, demo_rec 120 250)] =
     HDR_FMT @ ''  5 08001000 00000000        120  120.000  250'' @ [CHR 0x0A]"
  by (simp add: irq_report_def demo_clk_def demo_row_120 demo_rec_fields)

lemma kmm_malloc_Some: "kmm_malloc h = Some a \<Longrightarrow> a < length h \<and> h ! a = None"
  by (induction h arbitrary: a rule: kmm_malloc.induct) auto

lemma kmm_malloc_None: "kmm_malloc h = None \<longleftrightarrow> None \<notin> set h"
  by (induction h rule: kmm_malloc.induct) auto

lemma irq_open_denied:
  "(oflags AND O_WRONLY cfg) \<noteq> 0 \<or> (oflags AND O_RDONLY cfg) = 0 \<Longrightarrow>
   irq_open cfg filep oflags s = (s, - EACCES)"
  by (auto simp: irq_open_def)

lemma irq_open_denied_repeat:
  "(oflags AND O_WRONLY cfg) \<noteq> 0 \<or> (oflags AND O_RDONLY cfg) = 0 \<Longrightarrow>
   ((\<lambda>s. fst (irq_open cfg filep oflags s)) ^^ k) s = s"
  by (induction k) (simp_all add: irq_open_denied)

lemma irq_dup_OK:
  assumes "irq_dup oldp newp s = (s1, Inr OK)"
  shows "\<exists>a b f. f_priv (files s oldp) = Some a \<and> deref (heap s) a = Some f \<and>
           kmm_malloc (heap s) = Some b \<and>
           s1 = s\<lparr>heap := (heap s)[b := Some f],
                  files := (files s)(newp := (files s newp)\<lparr>f_priv := Some b\<rparr>)\<rparr>"
proof -
  have "- ENOMEM \<noteq> OK" by (simp add: ENOMEM_def OK_def)
  then show ?thesis
    using assms by (auto simp: irq_dup_def split: option.splits)
qed

lemma irq_rows_reset_fit: "rows_fit cfg clk' (reset_first clk (length rs) rs)"
  by (simp add: rows_fit_def irq_rows_reset)

lemma irq_report_reset: "irq_report cfg clk' (reset_first clk (length rs) rs) = HDR_FMT"
  by (simp add: irq_report_def irq_rows_reset)

lemma snprintf_exact:
  "length txt = n \<Longrightarrow> length buf = n \<Longrightarrow> 0 < n \<Longrightarrow>
   snprintf buf n txt = (butlast txt @ [CHR 0x00], n)"
  by (simp add: snprintf_def butlast_conv_take)

lemma procfs_memcpy_whole:
  "length src = n \<Longrightarrow> 0 < n \<Longrightarrow> n \<le> destlen \<Longrightarrow>
   procfs_memcpy src n m dest destlen 0 = Inr (memcpy m dest src, 0, n)"
  by (simp add: procfs_memcpy_def min_def)

lemma irq_callback_exact:
  assumes nz: "count info \<noteq> 0"
    and len: "length (irq_row cfg now irq info) = IRQ_LINELEN"
    and buf: "length (line f) = IRQ_LINELEN"
    and off: "offset f = 0"
    and room: "IRQ_LINELEN \<le> remaining f"
  shows "\<exists>f'. irq_callback cfg now irq info (f, m) =
           (info\<lparr>start := now, count := 0, time := 0\<rparr>,
            Inr ((f', memcpy m (buffer f) (butlast (irq_row cfg now irq info) @ [CHR 0x00])),
                 if IRQ_LINELEN < remaining f then 0 else 1)) \<and>
           ncopied f' = ncopied f + IRQ_LINELEN"
proof -
  obtain ip fp where r: "irq_rate (TICK_PER_SEC cfg) (count info) (irq_elapsed now (start info)) = Inr (ip, fp)"
    using irq_rate_elapsed by blast
  define row where "row = irq_row cfg now irq info"
  have row: "row = IRQ_FMT (word_of_int irq) (handler info) (arg info) (irq_count (count info))
            ip fp (tv_nsec (up_perf_convert cfg (time info)) div 1000)"
    by (simp add: row_def irq_row_def r)
  have pos: "0 < IRQ_LINELEN" by (simp add: IRQ_LINELEN_def)
  have sn: "snprintf (line f) IRQ_LINELEN row = (butlast row @ [CHR 0x00], IRQ_LINELEN)"
    using len buf pos by (simp add: snprintf_exact row_def)
  have l: "length (butlast row @ [CHR 0x00]) = IRQ_LINELEN"
    using len pos by (simp add: row_def)
  have pm: "procfs_memcpy (butlast row @ [CHR 0x00]) IRQ_LINELEN m (buffer f) (remaining f) 0 =
              Inr (memcpy m (buffer f) (butlast row @ [CHR 0x00]), 0, IRQ_LINELEN)"
    by (rule procfs_memcpy_whole [OF l pos room])
  show ?thesis
    using nz room unfolding row_def [symmetric]
    by (auto simp: irq_callback_def Let_def r row [symmetric] sn off pm)
qed

lemma demo_row_1000:
  "irq_row demo_cfg 1100 1000 (demo_rec 120 999999) =
     ''1000 08001000 00000000        120  120.000 999999'' @ [CHR 0x0A]"
  by (simp add: irq_row_def demo_cfg_def demo_rec_def irq_elapsed_def demo_rate_120
        irq_count_def ULONG_MAX_def fmt_eval)

lemma irq_rows_filter:
  "irq_rows cfg clk rs =
     map (\<lambda>k. irq_row cfg (clk k) (fst (rs ! k)) (snd (rs ! k)))
       (filter (\<lambda>k. count (snd (rs ! k)) \<noteq> 0) [0 ..< length rs])"
proof (induction rs arbitrary: clk)
  case Nil
  then show ?case by simp
next
  case (Cons p rs)
  obtain irq info where p: "p = (irq, info)" by (cases p)
  have upt: "[0 ..< length (p # rs)] = 0 # map Suc [0 ..< length rs]"
    by (simp add: upt_conv_Cons map_Suc_upt del: upt_Suc)
  show ?case
    unfolding upt by (simp add: p Cons.IH filter_map comp_def)
qed

lemma demo_rate_345: "irq_rate 100 345 100 = Inr (345, 0)"
  by (simp add: irq_rate_def udiv64_def Let_def)

lemma demo_row_345:
  "irq_row demo_cfg 1100 5 (demo_rec 345 250) =
     ''  5 08001000 00000000        345  345.000  250'' @ [CHR 0x0A]"
  by (simp add: irq_row_def demo_cfg_def demo_rec_def irq_elapsed_def demo_rate_345
        irq_count_def ULONG_MAX_def fmt_eval)

lemma demo_rate_wrap: "irq_rate 100 4294967300 100 = Inr (4, 0)"
  by (simp add: irq_rate_def udiv64_def Let_def)

lemma irq_rate_saturates:
  assumes nowrap: "unat cnt * unat tps < 2 ^ 64"
    and e: "e \<noteq> 0"
    and big: "10000 \<le> unat cnt * unat tps div unat e"
    and small: "unat cnt * unat tps div unat e < 2 ^ 32"
  shows "irq_rate tps cnt e = Inr (9999, 999)"
proof -
  let ?q = "(cnt * tps) div (ucast e :: 64 word)"
  have m: "unat (cnt * tps) = unat cnt * unat tps"
    using nowrap by (simp add: unat_word_ariths)
  have q: "unat ?q = unat cnt * unat tps div unat e"
    by (simp add: unat_div m unat_ucast_32_64)
  have "unat (ucast ?q :: 32 word) = unat ?q"
    using small by (simp add: unsigned_ucast_eq take_bit_nat_eq_self q)
  then have "10000 \<le> (ucast ?q :: 32 word)"
    using big by (simp add: word_le_nat_alt q)
  then show ?thesis
    using e by (simp add: irq_rate_def udiv64_def Let_def ucast_up_nonzero)
qed

lemma report_lines_when_fitting:
  assumes priv: "f_priv (files s filep) = Some a"
    and sess: "deref (heap s) a = Some f0"
    and fit: "rows_fit cfg clk (g_irqvector s)"
    and pos: "f_pos (files s filep) = 0"
    and room: "length (irq_report cfg clk (g_irqvector s)) \<le> buflen"
  shows "(\<exists>s'. irq_read cfg clk filep buf buflen s =
                (s', Inr (length (irq_report cfg clk (g_irqvector s)))) \<and>
              mem_read (umem s') buf (length (irq_report cfg clk (g_irqvector s))) =
                HDR_FMT @
                concat (map (\<lambda>k. irq_row cfg (clk k) (fst (g_irqvector s ! k)) (snd (g_irqvector s ! k)))
                  (filter (\<lambda>k. count (snd (g_irqvector s ! k)) \<noteq> 0)
                     [0 ..< length (g_irqvector s)]))) \<and>
         (\<exists>intpart fracpart.
            irq_rate (TICK_PER_SEC cfg) (count info) (irq_elapsed now (start info)) =
              Inr (intpart, fracpart) \<and>
            irq_row cfg now irq info =
              IRQ_FMT (word_of_int irq) (handler info) (arg info) (irq_count (count info))
                intpart fracpart (tv_nsec (up_perf_convert cfg (time info)) div 1000)) \<and>
         irq_callback cfg now irq (info\<lparr>count := 0\<rparr>) fm =
           (info\<lparr>start := now, count := 0, time := 0\<rparr>, Inr (fm, 0))"
proof -
  let ?R = "irq_report cfg clk (g_irqvector s)"
  have whole: "take buflen (drop 0 ?R) = ?R" using room by simp
  from irq_read_report [OF priv sess fit, of buf buflen] obtain s' where
    "irq_read cfg clk filep buf buflen s = (s', Inr (length ?R))"
    "umem s' = memcpy (umem s) buf ?R"
    unfolding pos whole by blast
  then have "irq_read cfg clk filep buf buflen s = (s', Inr (length ?R)) \<and>
      mem_read (umem s') buf (length ?R) = HDR_FMT @ concat (irq_rows cfg clk (g_irqvector s))"
    by (simp add: irq_report_def [symmetric])
  then have 1: "\<exists>s'. irq_read cfg clk filep buf buflen s = (s', Inr (length ?R)) \<and>
      mem_read (umem s') buf (length ?R) =
        HDR_FMT @
        concat (map (\<lambda>k. irq_row cfg (clk k) (fst (g_irqvector s ! k)) (snd (g_irqvector s ! k)))
          (filter (\<lambda>k. count (snd (g_irqvector s ! k)) \<noteq> 0) [0 ..< length (g_irqvector s)]))"
    unfolding irq_rows_filter [of cfg clk "g_irqvector s"] by blast
  obtain ip fp where r: "irq_rate (TICK_PER_SEC cfg) (count info) (irq_elapsed now (start info)) = Inr (ip, fp)"
    using irq_rate_elapsed by blast
  then have 2: "\<exists>intpart fracpart.
            irq_rate (TICK_PER_SEC cfg) (count info) (irq_elapsed now (start info)) =
              Inr (intpart, fracpart) \<and>
            irq_row cfg now irq info =
              IRQ_FMT (word_of_int irq) (handler info) (arg info) (irq_count (count info))
                intpart fracpart (tv_nsec (up_perf_convert cfg (time info)) div 1000)"
    by (simp add: irq_row_def)
  have 3: "irq_callback cfg now irq (info\<lparr>count := 0\<rparr>) fm =
           (info\<lparr>start := now, count := 0, time := 0\<rparr>, Inr (fm, 0))"
    using irq_callback_zero [of "info\<lparr>count := 0\<rparr>" cfg now irq fm] by simp
  show ?thesis using 1 2 3 by blast
qed

lemma demo_row_30000:
  "irq_row demo_cfg 1100 5 (demo_rec 120 30000) =
     ''  5 08001000 00000000        120  120.000 30000'' @ [CHR 0x0A]"
  by (simp add: irq_row_def demo_cfg_def demo_rec_def irq_elapsed_def demo_rate_120
        irq_count_def ULONG_MAX_def fmt_eval)

section \<open>The claims\<close>

subsection \<open>C1: reads in parts against one read\<close>

text \<open>
  C1, amended. Take reads through one handle, starting at position 0, each at the position
  the one before left, with interrupts delivered in between. If every call renders the same
  report \<open>R\<close> (the same lines, each within the scratch line), then a single read with
  capacity at least the length of \<open>R\<close> returns \<open>R\<close>, and the concatenation of the outputs of
  the reads in sequence, of total capacity at least the length of \<open>R\<close>, is \<open>R\<close> as well.
\<close>

theorem chunked_reads_same_report:
  assumes priv: "f_priv (files s filep) = Some a"
    and sess: "deref (heap s) a = Some f0"
    and pos: "f_pos (files s filep) = 0"
    and same: "list_all (same_report cfg R) calls"
    and single: "same_report cfg R (clk0, reg0, buf0, buflen0)"
    and cap0: "length R \<le> buflen0"
    and cap: "length R \<le> capacity calls"
  shows "\<exists>s1 s2.
      irq_read cfg clk0 filep buf0 buflen0 (s\<lparr>g_irqvector := reg0\<rparr>) = (s1, Inr (length R)) \<and>
      mem_read (umem s1) buf0 (length R) = R \<and>
      irq_read_seq cfg filep calls s = (s2, Inr R) \<and>
      f_pos (files s2 filep) = length R"
proof -
  let ?s0 = "s\<lparr>g_irqvector := reg0\<rparr>"
  have R0: "irq_report cfg clk0 (g_irqvector ?s0) = R" and fit0: "rows_fit cfg clk0 (g_irqvector ?s0)"
    using single by (simp_all add: same_report_def)
  have priv0: "f_priv (files ?s0 filep) = Some a" and sess0: "deref (heap ?s0) a = Some f0"
    and pos0: "f_pos (files ?s0 filep) = 0"
    using priv sess pos by simp_all
  have whole0: "take buflen0 (drop 0 R) = R" using cap0 by simp
  from irq_read_report [OF priv0 sess0 fit0, of buf0 buflen0] obtain s1 where
    "irq_read cfg clk0 filep buf0 buflen0 ?s0 = (s1, Inr (length R))"
    "umem s1 = memcpy (umem ?s0) buf0 R"
    unfolding R0 pos0 whole0 by blast
  then have one: "irq_read cfg clk0 filep buf0 buflen0 ?s0 = (s1, Inr (length R)) \<and>
      mem_read (umem s1) buf0 (length R) = R"
    by simp
  have whole: "take (capacity calls) (drop 0 R) = R" using cap by simp
  from irq_read_seq_report [OF priv sess same] obtain s2 where
    "irq_read_seq cfg filep calls s = (s2, Inr R)" "f_pos (files s2 filep) = length R"
    unfolding pos whole by auto
  then show ?thesis using one by blast
qed

theorem chunked_reads_same_report_witness:
  "\<exists>s1 s2.
      irq_read demo_cfg demo_clk 0 0 94 ((demo_sys [])\<lparr>g_irqvector := [(5, demo_rec 120 250)]\<rparr>) =
        (s1, Inr 94) \<and>
      mem_read (umem s1) 0 94 =
        HDR_FMT @ ''  5 08001000 00000000        120  120.000  250'' @ [CHR 0x0A] \<and>
      irq_read_seq demo_cfg 0
        [(demo_clk, [(5, demo_rec 120 250)], 0, 78), (demo_clk, [(5, demo_rec 120 250)], 100, 16)]
        (demo_sys []) =
        (s2, Inr (HDR_FMT @ ''  5 08001000 00000000        120  120.000  250'' @ [CHR 0x0A])) \<and>
      f_pos (files s2 0) = 94"
proof -
  define R where "R = HDR_FMT @ ''  5 08001000 00000000        120  120.000  250'' @ [CHR 0x0A]"
  let ?calls = "[(demo_clk, [(5, demo_rec 120 250)], 0, 78), (demo_clk, [(5, demo_rec 120 250)], 100 :: nat, 16 :: nat)]"
  have len: "length R = 94" by (simp add: R_def length_HDR_FMT)
  have sr: "same_report demo_cfg R (demo_clk, [(5, demo_rec 120 250)], b, n)" for b n :: nat
    by (simp add: same_report_def demo_report_120 demo_fit_120 R_def)
  have "f_priv (files (demo_sys []) 0) = Some 0" "deref (heap (demo_sys [])) 0 = Some zeroed"
    "f_pos (files (demo_sys []) 0) = 0" "list_all (same_report demo_cfg R) ?calls"
    "same_report demo_cfg R (demo_clk, [(5, demo_rec 120 250)], 0, 94)"
    "length R \<le> 94" "length R \<le> capacity ?calls"
    by (simp_all add: demo_sys_fields sr len)
  from chunked_reads_same_report [OF this] show ?thesis
    unfolding len unfolding R_def .
qed

text \<open>
  That the set of records with a nonzero snapshot count is the same at every call is not
  enough. Every read resets the records it visits, so a later call renders what was counted
  since. With the one record at count 120 for the first call (78 bytes) and at count 345 for
  the second (16 bytes), the parts put together read \<open>125  345.000\<close>: neither what a single
  read returns at the first call nor what it returns at the second.
\<close>

theorem chunked_reads_counterexample:
  "count (demo_rec 120 250) \<noteq> 0 \<and> count (demo_rec 345 250) \<noteq> 0 \<and>
   snd (irq_read demo_cfg demo_clk 0 0 94 (demo_sys [(5, demo_rec 120 250)])) = Inr 94 \<and>
   mem_read (umem (fst (irq_read demo_cfg demo_clk 0 0 94 (demo_sys [(5, demo_rec 120 250)])))) 0 94 =
     HDR_FMT @ ''  5 08001000 00000000        120  120.000  250'' @ [CHR 0x0A] \<and>
   snd (irq_read demo_cfg demo_clk 0 0 94 (demo_sys [(5, demo_rec 345 250)])) = Inr 94 \<and>
   mem_read (umem (fst (irq_read demo_cfg demo_clk 0 0 94 (demo_sys [(5, demo_rec 345 250)])))) 0 94 =
     HDR_FMT @ ''  5 08001000 00000000        345  345.000  250'' @ [CHR 0x0A] \<and>
   snd (irq_read_seq demo_cfg 0
          [(demo_clk, [(5, demo_rec 120 250)], 0, 78), (demo_clk, [(5, demo_rec 345 250)], 100, 16)]
          (demo_sys [])) =
     Inr (HDR_FMT @ ''  5 08001000 00000000        125  345.000  250'' @ [CHR 0x0A]) \<and>
   snd (irq_read_seq demo_cfg 0
          [(demo_clk, [(5, demo_rec 120 250)], 0, 78), (demo_clk, [(5, demo_rec 345 250)], 100, 16)]
          (demo_sys [])) \<noteq>
     Inr (mem_read (umem (fst (irq_read demo_cfg demo_clk 0 0 94 (demo_sys [(5, demo_rec 120 250)])))) 0 94) \<and>
   snd (irq_read_seq demo_cfg 0
          [(demo_clk, [(5, demo_rec 120 250)], 0, 78), (demo_clk, [(5, demo_rec 345 250)], 100, 16)]
          (demo_sys [])) \<noteq>
     Inr (mem_read (umem (fst (irq_read demo_cfg demo_clk 0 0 94 (demo_sys [(5, demo_rec 345 250)])))) 0 94)"
proof -
  define R1 where "R1 = HDR_FMT @ ''  5 08001000 00000000        120  120.000  250'' @ [CHR 0x0A]"
  define R2 where "R2 = HDR_FMT @ ''  5 08001000 00000000        345  345.000  250'' @ [CHR 0x0A]"
  define P1 where "P1 = HDR_FMT @ ''  5 08001000 00000000        12''"
  define P2 where "P2 = ''5  345.000  250'' @ [CHR 0x0A]"
  let ?reg1 = "[(5, demo_rec 120 250)]"
  let ?reg2 = "[(5, demo_rec 345 250)]"
  have rep1: "irq_report demo_cfg demo_clk ?reg1 = R1"
    by (simp add: R1_def demo_report_120)
  have rep2: "irq_report demo_cfg demo_clk ?reg2 = R2"
    by (simp add: R2_def irq_report_def demo_clk_def demo_row_345 demo_rec_fields)
  have fit1: "rows_fit demo_cfg demo_clk ?reg1" by (rule demo_fit_120)
  have fit2: "rows_fit demo_cfg demo_clk ?reg2"
    by (simp add: rows_fit_def demo_clk_def demo_row_345 IRQ_LINELEN_def demo_rec_fields)
  have len: "length R1 = 94" "length R2 = 94" "length P1 = 78" "length P2 = 16"
    by (simp_all add: R1_def R2_def P1_def P2_def length_HDR_FMT)
  have cut1: "take 78 (drop 0 R1) = P1"
    by (simp add: R1_def P1_def HDR_FMT_def)
  have cut2: "take 16 (drop 78 R2) = P2"
    by (simp add: R2_def P2_def HDR_FMT_def)
  have whole: "take 94 (drop 0 R1) = R1" "take 94 (drop 0 R2) = R2"
    by (simp_all add: len)
  have v: "f_priv (files (demo_sys reg) 0) = Some 0" "deref (heap (demo_sys reg)) 0 = Some zeroed" for reg
    by (simp_all add: demo_sys_fields)
  have single1: "snd (irq_read demo_cfg demo_clk 0 0 94 (demo_sys ?reg1)) = Inr 94 \<and>
      mem_read (umem (fst (irq_read demo_cfg demo_clk 0 0 94 (demo_sys ?reg1)))) 0 94 = R1"
  proof -
    have fit: "rows_fit demo_cfg demo_clk (g_irqvector (demo_sys ?reg1))"
      unfolding demo_sys_fields by (rule fit1)
    from irq_read_report [OF v fit, of 0 94] obtain s' where
      "irq_read demo_cfg demo_clk 0 0 94 (demo_sys ?reg1) = (s', Inr (length R1))"
      "umem s' = memcpy (umem (demo_sys ?reg1)) 0 R1"
      unfolding demo_sys_fields rep1 whole by blast
    then show ?thesis
      using mem_read_memcpy_len [OF len(1), of "umem (demo_sys ?reg1)" 0] by (simp add: len)
  qed
  have single2: "snd (irq_read demo_cfg demo_clk 0 0 94 (demo_sys ?reg2)) = Inr 94 \<and>
      mem_read (umem (fst (irq_read demo_cfg demo_clk 0 0 94 (demo_sys ?reg2)))) 0 94 = R2"
  proof -
    have fit: "rows_fit demo_cfg demo_clk (g_irqvector (demo_sys ?reg2))"
      unfolding demo_sys_fields by (rule fit2)
    from irq_read_report [OF v fit, of 0 94] obtain s' where
      "irq_read demo_cfg demo_clk 0 0 94 (demo_sys ?reg2) = (s', Inr (length R2))"
      "umem s' = memcpy (umem (demo_sys ?reg2)) 0 R2"
      unfolding demo_sys_fields rep2 whole by blast
    then show ?thesis
      using mem_read_memcpy_len [OF len(2), of "umem (demo_sys ?reg2)" 0] by (simp add: len)
  qed
  let ?s0 = "(demo_sys [])\<lparr>g_irqvector := ?reg1\<rparr>"
  have v0: "f_priv (files ?s0 0) = Some 0" "deref (heap ?s0) 0 = Some zeroed"
    and p0: "f_pos (files ?s0 0) = 0" and g0: "g_irqvector ?s0 = ?reg1"
    by (simp_all add: demo_sys_fields)
  have fit0: "rows_fit demo_cfg demo_clk (g_irqvector ?s0)" unfolding g0 by (rule fit1)
  from irq_read_report [OF v0 fit0, of 0 78] obtain s1 f1 where
    r1: "irq_read demo_cfg demo_clk 0 0 78 ?s0 = (s1, Inr (length P1))"
    and m1: "umem s1 = memcpy (umem ?s0) 0 P1"
    and fl1: "files s1 = (files ?s0)(0 := (files ?s0 0)\<lparr>f_pos := 0 + length P1\<rparr>)"
    and hp1: "heap s1 = (heap ?s0)[0 := Some f1]"
    unfolding g0 rep1 p0 cut1 by blast
  let ?s1 = "s1\<lparr>g_irqvector := ?reg2\<rparr>"
  have v1: "f_priv (files ?s1 0) = Some 0" "deref (heap ?s1) 0 = Some f1"
    and p1: "f_pos (files ?s1 0) = 78" and g1: "g_irqvector ?s1 = ?reg2"
    by (simp_all add: fl1 hp1 len demo_sys_def deref_def)
  have fit1': "rows_fit demo_cfg demo_clk (g_irqvector ?s1)" unfolding g1 by (rule fit2)
  from irq_read_report [OF v1 fit1', of 100 16] obtain s2 where
    r2: "irq_read demo_cfg demo_clk 0 100 16 ?s1 = (s2, Inr (length P2))"
    and m2: "umem s2 = memcpy (umem ?s1) 100 P2"
    unfolding g1 rep2 p1 cut2 by blast
  have b1: "mem_read (umem s1) 0 78 = P1"
    unfolding m1 by (rule mem_read_memcpy_len [OF len(3)])
  have b2: "mem_read (umem s2) 100 16 = P2"
    unfolding m2 by (rule mem_read_memcpy_len [OF len(4)])
  have "irq_read_seq demo_cfg 0
          [(demo_clk, ?reg1, 0, 78), (demo_clk, ?reg2, 100, 16)] (demo_sys []) = (s2, Inr (P1 @ P2))"
    using r1 r2 b1 b2 by (simp add: len)
  then have seq: "snd (irq_read_seq demo_cfg 0
          [(demo_clk, ?reg1, 0, 78), (demo_clk, ?reg2, 100, 16)] (demo_sys [])) =
     Inr (HDR_FMT @ ''  5 08001000 00000000        125  345.000  250'' @ [CHR 0x0A])"
    by (simp add: P1_def P2_def)
  have nz: "count (demo_rec 120 250) \<noteq> 0 \<and> count (demo_rec 345 250) \<noteq> 0"
    by (simp add: demo_rec_fields)
  have d1: "snd (irq_read_seq demo_cfg 0
          [(demo_clk, ?reg1, 0, 78), (demo_clk, ?reg2, 100, 16)] (demo_sys [])) \<noteq>
     Inr (mem_read (umem (fst (irq_read demo_cfg demo_clk 0 0 94 (demo_sys ?reg1)))) 0 94)"
    using single1 unfolding seq by (simp add: R1_def)
  have d2: "snd (irq_read_seq demo_cfg 0
          [(demo_clk, ?reg1, 0, 78), (demo_clk, ?reg2, 100, 16)] (demo_sys [])) \<noteq>
     Inr (mem_read (umem (fst (irq_read demo_cfg demo_clk 0 0 94 (demo_sys ?reg2)))) 0 94)"
    using single2 unfolding seq by (simp add: R2_def)
  show ?thesis
    using nz single1 single2 seq d1 d2 unfolding R1_def R2_def by blast
qed

subsection \<open>C2: one record, read whole and read in two parts\<close>

text \<open>
  C2, amended. A registry with exactly one record, irq 5, handler 0x08001000, argument 0,
  whose snapshot count is 120 over a window of one second (\<open>TICK_PER_SEC\<close> ticks) and whose
  busy time field converts to 250 microseconds (the field is printed as it is, not divided by
  the count): a read of the whole report delivers the header and, right after it, the line
  \<open>"  5 08001000 00000000        120  120.000  250\n"\<close>. A first read of capacity exactly
  the header's length delivers the header and resets the record. If, by the second read, the
  record has again counted 120 interrupts and the same busy time, in a window of exactly one
  more second since that reset, the second read with the remaining capacity of 47 bytes
  delivers exactly the line.
\<close>

theorem one_record_scenario:
  assumes priv: "f_priv (files s filep) = Some a"
    and sess: "deref (heap s) a = Some f0"
    and pos: "f_pos (files s filep) = 0"
    and reg: "g_irqvector s =
        [(5, \<lparr>handler = 0x08001000, arg = 0, start = st, count = 120, time = t\<rparr>)]"
    and tps: "TICK_PER_SEC cfg = ucast e" and e: "e \<noteq> 0"
    and w1: "clk1 0 - st = e" and w2: "clk2 0 - clk1 0 = e"
    and usec: "tv_nsec (up_perf_convert cfg t) div 1000 = 250"
  shows "(\<exists>s'. irq_read cfg clk1 filep buf 94 s = (s', Inr 94) \<and>
            mem_read (umem s') buf 94 =
              HDR_FMT @ ''  5 08001000 00000000        120  120.000  250'' @ [CHR 0x0A]) \<and>
         (\<exists>s1 s2.
            irq_read cfg clk1 filep buf1 (length HDR_FMT) s = (s1, Inr (length HDR_FMT)) \<and>
            mem_read (umem s1) buf1 (length HDR_FMT) = HDR_FMT \<and>
            irq_read cfg clk2 filep buf2 47
              (s1\<lparr>g_irqvector := map (\<lambda>(irq, r). (irq, r\<lparr>count := 120, time := t\<rparr>)) (g_irqvector s1)\<rparr>) =
              (s2, Inr 47) \<and>
            mem_read (umem s2) buf2 47 =
              ''  5 08001000 00000000        120  120.000  250'' @ [CHR 0x0A])"
proof -
  let ?line = "''  5 08001000 00000000        120  120.000  250'' @ [CHR 0x0A]"
  let ?info = "\<lparr>handler = 0x08001000, arg = 0, start = st, count = 120, time = t\<rparr>"
  have row1: "irq_row cfg (clk1 0) 5 ?info = ?line"
    by (rule row_one_second [OF tps e w1 usec])
  have rep1: "irq_report cfg clk1 (g_irqvector s) = HDR_FMT @ ?line"
    by (simp add: irq_report_def reg row1)
  have fit1: "rows_fit cfg clk1 (g_irqvector s)"
    by (simp add: rows_fit_def reg row1 IRQ_LINELEN_def)
  have len: "length (HDR_FMT @ ?line) = 94" "length ?line = 47"
    by (simp_all add: length_HDR_FMT)
  from irq_read_report [OF priv sess fit1, of buf 94] obtain s' where
    "irq_read cfg clk1 filep buf 94 s = (s', Inr 94)" "umem s' = memcpy (umem s) buf (HDR_FMT @ ?line)"
    by (auto simp: pos rep1 length_HDR_FMT)
  then have single: "\<exists>s'. irq_read cfg clk1 filep buf 94 s = (s', Inr 94) \<and>
            mem_read (umem s') buf 94 = HDR_FMT @ ?line"
    using mem_read_memcpy_len [OF len(1), of "umem s" buf] by auto
  from irq_read_report [OF priv sess fit1, of buf1 "length HDR_FMT"] obtain s1 f1 where
    r1: "irq_read cfg clk1 filep buf1 (length HDR_FMT) s = (s1, Inr (length HDR_FMT))"
    and m1: "umem s1 = memcpy (umem s) buf1 HDR_FMT"
    and fl1: "files s1 = (files s)(filep := (files s filep)\<lparr>f_pos := length HDR_FMT\<rparr>)"
    and hp1: "heap s1 = (heap s)[a := Some f1]"
    by (auto simp: pos rep1)
  from irq_read_first_reset [OF priv sess reg, of cfg clk1 buf1 "length HDR_FMT"]
  have g1: "g_irqvector s1 = [(5, \<lparr>handler = 0x08001000, arg = 0, start = clk1 0, count = 0, time = 0\<rparr>)]"
    by (simp add: r1)
  let ?s1 = "s1\<lparr>g_irqvector := map (\<lambda>(irq, r). (irq, r\<lparr>count := 120, time := t\<rparr>)) (g_irqvector s1)\<rparr>"
  have g2: "g_irqvector ?s1 =
      [(5, \<lparr>handler = 0x08001000, arg = 0, start = clk1 0, count = 120, time = t\<rparr>)]"
    by (simp add: g1)
  have row2: "irq_row cfg (clk2 0) 5 \<lparr>handler = 0x08001000, arg = 0, start = clk1 0, count = 120, time = t\<rparr> = ?line"
    by (rule row_one_second [OF tps e w2 usec])
  have rep2: "irq_report cfg clk2 (g_irqvector ?s1) = HDR_FMT @ ?line"
    unfolding g2 by (simp add: irq_report_def row2)
  have fit2: "rows_fit cfg clk2 (g_irqvector ?s1)"
    unfolding g2 by (simp add: rows_fit_def row2 IRQ_LINELEN_def)
  have priv2: "f_priv (files ?s1 filep) = Some a" using priv by (simp add: fl1)
  have sess2: "deref (heap ?s1) a = Some f1" using sess by (simp add: hp1 deref_update)
  have pos2: "f_pos (files ?s1 filep) = length HDR_FMT" by (simp add: fl1)
  from irq_read_report [OF priv2 sess2 fit2, of buf2 47] obtain s2 where
    "irq_read cfg clk2 filep buf2 47 ?s1 = (s2, Inr 47)" "umem s2 = memcpy (umem ?s1) buf2 ?line"
    unfolding rep2 pos2 by auto
  then have "irq_read cfg clk2 filep buf2 47 ?s1 = (s2, Inr 47) \<and> mem_read (umem s2) buf2 47 = ?line"
    using mem_read_memcpy_len [OF len(2), of "umem ?s1" buf2] by auto
  moreover have "mem_read (umem s1) buf1 (length HDR_FMT) = HDR_FMT"
    by (simp add: m1)
  ultimately show ?thesis using single r1 by blast
qed

theorem one_record_scenario_witness:
  "(\<exists>s'. irq_read demo_cfg (\<lambda>k. 1100) 0 0 94 (demo_sys [(5, demo_rec 120 250)]) = (s', Inr 94) \<and>
            mem_read (umem s') 0 94 =
              HDR_FMT @ ''  5 08001000 00000000        120  120.000  250'' @ [CHR 0x0A]) \<and>
   (\<exists>s1 s2.
      irq_read demo_cfg (\<lambda>k. 1100) 0 0 (length HDR_FMT) (demo_sys [(5, demo_rec 120 250)]) =
        (s1, Inr (length HDR_FMT)) \<and>
      mem_read (umem s1) 0 (length HDR_FMT) = HDR_FMT \<and>
      irq_read demo_cfg (\<lambda>k. 1200) 0 100 47
        (s1\<lparr>g_irqvector := map (\<lambda>(irq, r). (irq, r\<lparr>count := 120, time := 250\<rparr>)) (g_irqvector s1)\<rparr>) =
        (s2, Inr 47) \<and>
      mem_read (umem s2) 100 47 =
        ''  5 08001000 00000000        120  120.000  250'' @ [CHR 0x0A])"
proof -
  let ?s = "demo_sys [(5, demo_rec 120 250)]"
  have "f_priv (files ?s 0) = Some 0" "deref (heap ?s) 0 = Some zeroed" "f_pos (files ?s 0) = 0"
    "g_irqvector ?s = [(5, \<lparr>handler = 0x08001000, arg = 0, start = 1000, count = 120, time = 250\<rparr>)]"
    "TICK_PER_SEC demo_cfg = ucast (100 :: 32 word)" "(100 :: 32 word) \<noteq> 0"
    "(\<lambda>k. 1100 :: clock_t) 0 - 1000 = 100" "(\<lambda>k. 1200 :: clock_t) 0 - (\<lambda>k. 1100 :: clock_t) 0 = 100"
    "tv_nsec (up_perf_convert demo_cfg 250) div 1000 = 250"
    by (simp_all add: demo_sys_def demo_rec_def demo_cfg_def deref_def)
  from one_record_scenario [OF this, of 0 0 100] show ?thesis .
qed

text \<open>
  As stated, C2 fails on the second read. The read that takes just the header still visits
  the record and resets it, so a second read that follows with nothing counted in between
  finds the count at zero, renders no line and returns 0 bytes: the two reads together give
  the header alone. And the last field is the busy time itself: for 120 interrupts of 250
  microseconds each, a busy time of 30000 microseconds, the line ends in \<open>30000\<close>.
\<close>

theorem one_record_split_counterexample:
  "snd (irq_read demo_cfg demo_clk 0 0 (length HDR_FMT) (demo_sys [(5, demo_rec 120 250)])) =
     Inr (length HDR_FMT) \<and>
   mem_read (umem (fst (irq_read demo_cfg demo_clk 0 0 (length HDR_FMT)
       (demo_sys [(5, demo_rec 120 250)])))) 0 (length HDR_FMT) = HDR_FMT \<and>
   g_irqvector (fst (irq_read demo_cfg demo_clk 0 0 (length HDR_FMT)
       (demo_sys [(5, demo_rec 120 250)]))) =
     [(5, \<lparr>handler = 0x08001000, arg = 0, start = 1100, count = 0, time = 0\<rparr>)] \<and>
   snd (irq_read demo_cfg (\<lambda>k. 1200) 0 100 47
         (fst (irq_read demo_cfg demo_clk 0 0 (length HDR_FMT)
            (demo_sys [(5, demo_rec 120 250)])))) = Inr 0 \<and>
   irq_row demo_cfg 1100 5 (demo_rec 120 30000) =
     ''  5 08001000 00000000        120  120.000 30000'' @ [CHR 0x0A]"
proof -
  let ?s = "demo_sys [(5, demo_rec 120 250)]"
  let ?n = "length HDR_FMT"
  have v: "f_priv (files ?s 0) = Some 0" "deref (heap ?s) 0 = Some zeroed"
    and p: "f_pos (files ?s 0) = 0"
    and g: "g_irqvector ?s = (5, demo_rec 120 250) # []"
    by (simp_all add: demo_sys_fields)
  have fit: "rows_fit demo_cfg demo_clk (g_irqvector ?s)"
    unfolding demo_sys_fields by (rule demo_fit_120)
  have cut: "take ?n (drop 0 (irq_report demo_cfg demo_clk [(5, demo_rec 120 250)])) = HDR_FMT"
    by (simp add: demo_report_120)
  from irq_read_report [OF v fit, of 0 ?n] obtain s1 f1 where
    rd: "irq_read demo_cfg demo_clk 0 0 ?n ?s = (s1, Inr ?n)"
    and m1: "umem s1 = memcpy (umem ?s) 0 HDR_FMT"
    and fl1: "files s1 = (files ?s)(0 := (files ?s 0)\<lparr>f_pos := 0 + ?n\<rparr>)"
    and hp1: "heap s1 = (heap ?s)[0 := Some f1]"
    unfolding demo_sys_fields cut by blast
  from irq_read_first_reset [OF v g, of demo_cfg demo_clk 0 ?n]
  have "g_irqvector s1 = [(5, (demo_rec 120 250)\<lparr>start := demo_clk 0, count := 0, time := 0\<rparr>)]"
    unfolding rd by simp
  then have g1: "g_irqvector s1 =
      [(5, \<lparr>handler = 0x08001000, arg = 0, start = 1100, count = 0, time = 0\<rparr>)]"
    by (simp add: demo_clk_def demo_rec_def)
  have v1: "f_priv (files s1 0) = Some 0" "deref (heap s1) 0 = Some f1"
    and p1: "f_pos (files s1 0) = ?n"
    by (simp_all add: fl1 hp1 demo_sys_def deref_def)
  have rep1: "irq_report demo_cfg (\<lambda>k. 1200) (g_irqvector s1) = HDR_FMT"
    and fit1: "rows_fit demo_cfg (\<lambda>k. 1200) (g_irqvector s1)"
    by (simp_all add: g1 irq_report_def rows_fit_def)
  from irq_read_report [OF v1 fit1, of 100 47] obtain s2 where
    "irq_read demo_cfg (\<lambda>k. 1200) 0 100 47 s1 = (s2, Inr 0)"
    unfolding rep1 p1 by auto
  then have second: "snd (irq_read demo_cfg (\<lambda>k. 1200) 0 100 47 s1) = Inr 0" by simp
  have first: "snd (irq_read demo_cfg demo_clk 0 0 ?n ?s) = Inr ?n"
    "fst (irq_read demo_cfg demo_clk 0 0 ?n ?s) = s1"
    by (simp_all add: rd)
  have bytes: "mem_read (umem s1) 0 ?n = HDR_FMT" by (simp add: m1)
  show ?thesis
    unfolding first using bytes g1 second demo_row_30000 by blast
qed

subsection \<open>C3: every visit snapshots and resets the record\<close>

text \<open>
  C3. A visit leaves the record with its window start set to the time read in the visit and
  its count and busy time zeroed, whatever the record held and whatever happens to the line;
  handler and argument stay. A record whose snapshot count is zero is reset all the same,
  produces no output and lets the traversal continue. The line of a record with a nonzero
  count is rendered from the values the record held before the reset (the snapshot). After
  any read, the registry is the one before it with the visited records, the first \<open>n\<close> in
  enumeration order, reset at the times of their visits. The copy and the reset are one step
  of the model, as the critical section makes them one step for interrupt delivery.
\<close>

theorem visit_snapshots_and_resets:
  "fst (irq_callback cfg now irq info fm) = info\<lparr>start := now, count := 0, time := 0\<rparr> \<and>
   irq_callback cfg now irq (info\<lparr>count := 0\<rparr>) fm =
     (info\<lparr>start := now, count := 0, time := 0\<rparr>, Inr (fm, 0)) \<and>
   (count info \<noteq> 0 \<and> length (irq_row cfg now irq info) < IRQ_LINELEN \<longrightarrow>
      (\<exists>f' ret. snd (irq_callback cfg now irq info (f, m)) =
         Inr ((f', memcpy m (buffer f)
                 (take (remaining f) (drop (offset f) (irq_row cfg now irq info)))), ret))) \<and>
   (\<exists>n. n \<le> length (g_irqvector s) \<and>
        g_irqvector (fst (irq_read cfg clk filep buf buflen s)) =
          reset_first clk n (g_irqvector s))"
proof -
  have "irq_callback cfg now irq (info\<lparr>count := 0\<rparr>) fm =
     (info\<lparr>start := now, count := 0, time := 0\<rparr>, Inr (fm, 0))"
    using irq_callback_zero [of "info\<lparr>count := 0\<rparr>" cfg now irq fm] by simp
  moreover have "count info \<noteq> 0 \<and> length (irq_row cfg now irq info) < IRQ_LINELEN \<longrightarrow>
      (\<exists>f' ret. snd (irq_callback cfg now irq info (f, m)) =
         Inr ((f', memcpy m (buffer f)
                 (take (remaining f) (drop (offset f) (irq_row cfg now irq info)))), ret))"
  proof
    assume a: "count info \<noteq> 0 \<and> length (irq_row cfg now irq info) < IRQ_LINELEN"
    from irq_callback_row [of info cfg now irq f m] a obtain f' where
      "irq_callback cfg now irq info (f, m) =
           (info\<lparr>start := now, count := 0, time := 0\<rparr>,
            Inr ((f', memcpy m (buffer f) (take (remaining f) (drop (offset f) (irq_row cfg now irq info)))),
                 if length (take (remaining f) (drop (offset f) (irq_row cfg now irq info))) < remaining f
                 then 0 else 1))"
      by blast
    then show "\<exists>f' ret. snd (irq_callback cfg now irq info (f, m)) =
         Inr ((f', memcpy m (buffer f)
                 (take (remaining f) (drop (offset f) (irq_row cfg now irq info)))), ret)"
      by simp
  qed
  ultimately show ?thesis
    using irq_callback_fst [of cfg now irq info fm] irq_read_registry [of s cfg clk filep buf buflen]
    by blast
qed

theorem visit_snapshots_and_resets_witness:
  "fst (irq_callback demo_cfg 1100 5 (demo_rec 120 250) (zeroed\<lparr>remaining := 60\<rparr>, \<lambda>a. CHR 0x00)) =
     \<lparr>handler = 0x08001000, arg = 0, start = 1100, count = 0, time = 0\<rparr> \<and>
   (\<exists>f' ret. snd (irq_callback demo_cfg 1100 5 (demo_rec 120 250) (zeroed\<lparr>remaining := 60\<rparr>, \<lambda>a. CHR 0x00)) =
      Inr ((f', memcpy (\<lambda>a. CHR 0x00) 0 (''  5 08001000 00000000        120  120.000  250'' @ [CHR 0x0A])), ret))"
proof -
  have a: "count (demo_rec 120 250) \<noteq> 0 \<and> length (irq_row demo_cfg 1100 5 (demo_rec 120 250)) < IRQ_LINELEN"
    by (simp add: demo_row_120_len IRQ_LINELEN_def demo_rec_fields)
  from visit_snapshots_and_resets [of demo_cfg 1100 5 "demo_rec 120 250"
      "(zeroed\<lparr>remaining := 60\<rparr>, \<lambda>a. CHR 0x00)" "zeroed\<lparr>remaining := 60\<rparr>" "\<lambda>a. CHR 0x00"] a
  show ?thesis
    by (simp add: demo_row_120 zeroed_def) (simp add: demo_rec_def)
qed

subsection \<open>C4: saturation of the rate and of the count\<close>

text \<open>
  C4. The count is clamped: a snapshot count above \<open>ULONG_MAX\<close> is printed as \<open>ULONG_MAX\<close>.
  The rate is not always saturated: the quotient is cast to \<open>unsigned int\<close> before it is
  compared with 10000, so a quotient of \<open>2^32\<close> or more is first reduced modulo \<open>2^32\<close>.
  With 4294967300 interrupts counted in a window of 100 ticks at 100 ticks per second, the
  integer part of the rate is 4294967300, far above 9999; the code computes 4 for it and 0
  for the fraction, and the line shows \<open>4.000\<close> where the claim has \<open>9999.999\<close>. The count of
  that same line is clamped to 4294967295. (When neither the product nor the quotient
  overflows, the rate does saturate: \<open>irq_rate_saturates\<close>.)
\<close>

theorem rate_wraps_at_failing_input:
  "irq_elapsed 1100 1000 = 100 \<and>
   unat (4294967300 :: 64 word) * unat (100 :: 64 word) div unat (irq_elapsed 1100 1000) = 4294967300 \<and>
   irq_rate 100 4294967300 (irq_elapsed 1100 1000) = Inr (4, 0) \<and>
   irq_count 4294967300 = 4294967295 \<and>
   irq_row demo_cfg 1100 5 (demo_rec 4294967300 250) =
     ''  5 08001000 00000000 4294967295    4.000  250'' @ [CHR 0x0A]"
proof -
  have e: "irq_elapsed 1100 1000 = 100" by (simp add: irq_elapsed_def)
  have c: "irq_count 4294967300 = 4294967295" by (simp add: irq_count_def ULONG_MAX_def)
  have "irq_row demo_cfg 1100 5 (demo_rec 4294967300 250) =
     ''  5 08001000 00000000 4294967295    4.000  250'' @ [CHR 0x0A]"
    by (simp add: irq_row_def demo_cfg_def demo_rec_def e demo_rate_wrap c fmt_eval)
  then show ?thesis using e c demo_rate_wrap by simp
qed

subsection \<open>C5: open\<close>

text \<open>
  C5. \<open>irq_open\<close> returns \<open>-EACCES\<close> exactly when the access mode includes the write flag
  or lacks the read flag; the state is then unchanged, so nothing is allocated, however often
  the failed open is repeated. Otherwise, when the allocator has no free block it returns
  \<open>-ENOMEM\<close> and the state is unchanged; when it has one, the call returns \<open>OK\<close>, the block
  (free before) holds a zeroed session, the file's private pointer is its address, and no
  other session, file, record or user byte has changed.
\<close>

theorem open_access_and_allocation:
  "(snd (irq_open cfg filep oflags s) = - EACCES \<longleftrightarrow>
      (oflags AND O_WRONLY cfg) \<noteq> 0 \<or> (oflags AND O_RDONLY cfg) = 0) \<and>
   ((oflags AND O_WRONLY cfg) \<noteq> 0 \<or> (oflags AND O_RDONLY cfg) = 0 \<longrightarrow>
      irq_open cfg filep oflags s = (s, - EACCES) \<and>
      ((\<lambda>s. fst (irq_open cfg filep oflags s)) ^^ k) s = s) \<and>
   ((oflags AND O_WRONLY cfg) = 0 \<and> (oflags AND O_RDONLY cfg) \<noteq> 0 \<and> kmm_malloc (heap s) = None \<longrightarrow>
      irq_open cfg filep oflags s = (s, - ENOMEM)) \<and>
   ((oflags AND O_WRONLY cfg) = 0 \<and> (oflags AND O_RDONLY cfg) \<noteq> 0 \<and> kmm_malloc (heap s) = Some a \<longrightarrow>
      snd (irq_open cfg filep oflags s) = OK \<and>
      deref (heap s) a = None \<and>
      deref (heap (fst (irq_open cfg filep oflags s))) a = Some zeroed \<and>
      files (fst (irq_open cfg filep oflags s)) =
        (files s)(filep := (files s filep)\<lparr>f_priv := Some a\<rparr>) \<and>
      (b \<noteq> a \<longrightarrow> deref (heap (fst (irq_open cfg filep oflags s))) b = deref (heap s) b) \<and>
      g_irqvector (fst (irq_open cfg filep oflags s)) = g_irqvector s \<and>
      umem (fst (irq_open cfg filep oflags s)) = umem s)"
proof -
  have codes: "- EACCES \<noteq> - ENOMEM" "- EACCES \<noteq> OK"
    by (simp_all add: EACCES_def ENOMEM_def OK_def)
  have 1: "snd (irq_open cfg filep oflags s) = - EACCES \<longleftrightarrow>
      (oflags AND O_WRONLY cfg) \<noteq> 0 \<or> (oflags AND O_RDONLY cfg) = 0"
    using codes by (auto simp: irq_open_def kmm_zalloc_def split: option.splits)
  have 3: "(oflags AND O_WRONLY cfg) = 0 \<and> (oflags AND O_RDONLY cfg) \<noteq> 0 \<and> kmm_malloc (heap s) = None \<longrightarrow>
      irq_open cfg filep oflags s = (s, - ENOMEM)"
    by (simp add: irq_open_def kmm_zalloc_def)
  have 4: "(oflags AND O_WRONLY cfg) = 0 \<and> (oflags AND O_RDONLY cfg) \<noteq> 0 \<and> kmm_malloc (heap s) = Some a \<longrightarrow>
      snd (irq_open cfg filep oflags s) = OK \<and>
      deref (heap s) a = None \<and>
      deref (heap (fst (irq_open cfg filep oflags s))) a = Some zeroed \<and>
      files (fst (irq_open cfg filep oflags s)) =
        (files s)(filep := (files s filep)\<lparr>f_priv := Some a\<rparr>) \<and>
      (b \<noteq> a \<longrightarrow> deref (heap (fst (irq_open cfg filep oflags s))) b = deref (heap s) b) \<and>
      g_irqvector (fst (irq_open cfg filep oflags s)) = g_irqvector s \<and>
      umem (fst (irq_open cfg filep oflags s)) = umem s"
    using kmm_malloc_Some [of "heap s" a]
    by (auto simp: irq_open_def kmm_zalloc_def deref_def)
  show ?thesis
    using 1 3 4 irq_open_denied [where oflags = oflags and cfg = cfg and filep = filep and s = s]
      irq_open_denied_repeat [where oflags = oflags and cfg = cfg and filep = filep and k = k and s = s]
    by blast
qed

theorem open_access_and_allocation_witness:
  "irq_open demo_cfg 1 3 (demo_sys []) = (demo_sys [], - EACCES) \<and>
   irq_open demo_cfg 1 0 (demo_sys []) = (demo_sys [], - EACCES) \<and>
   irq_open demo_cfg 1 1 ((demo_sys [])\<lparr>heap := [Some zeroed]\<rparr>) =
     ((demo_sys [])\<lparr>heap := [Some zeroed]\<rparr>, - ENOMEM) \<and>
   snd (irq_open demo_cfg 1 1 (demo_sys [])) = OK \<and>
   deref (heap (fst (irq_open demo_cfg 1 1 (demo_sys [])))) 1 = Some zeroed \<and>
   f_priv (files (fst (irq_open demo_cfg 1 1 (demo_sys []))) 1) = Some 1"
proof -
  have w: "(3 AND O_WRONLY demo_cfg) \<noteq> 0 \<or> (3 AND O_RDONLY demo_cfg) = 0"
    and n: "(0 AND O_WRONLY demo_cfg) \<noteq> 0 \<or> (0 AND O_RDONLY demo_cfg) = 0"
    and r: "(1 AND O_WRONLY demo_cfg) = 0 \<and> (1 AND O_RDONLY demo_cfg) \<noteq> 0"
    by (simp_all add: demo_cfg_def)
  have full: "kmm_malloc (heap ((demo_sys [])\<lparr>heap := [Some zeroed]\<rparr>)) = None"
    and free: "kmm_malloc (heap (demo_sys [])) = Some 1"
    by (simp_all add: demo_sys_def)
  from open_access_and_allocation [of demo_cfg 1 3 "demo_sys []" 0 0 0] w
  have a: "irq_open demo_cfg 1 3 (demo_sys []) = (demo_sys [], - EACCES)" by blast
  from open_access_and_allocation [of demo_cfg 1 0 "demo_sys []" 0 0 0] n
  have b: "irq_open demo_cfg 1 0 (demo_sys []) = (demo_sys [], - EACCES)" by blast
  from open_access_and_allocation [of demo_cfg 1 1 "(demo_sys [])\<lparr>heap := [Some zeroed]\<rparr>" 0 0 0] r full
  have c: "irq_open demo_cfg 1 1 ((demo_sys [])\<lparr>heap := [Some zeroed]\<rparr>) =
     ((demo_sys [])\<lparr>heap := [Some zeroed]\<rparr>, - ENOMEM)" by blast
  from open_access_and_allocation [of demo_cfg 1 1 "demo_sys []" 0 1 0] r free
  have d: "snd (irq_open demo_cfg 1 1 (demo_sys [])) = OK \<and>
   deref (heap (fst (irq_open demo_cfg 1 1 (demo_sys [])))) 1 = Some zeroed \<and>
   files (fst (irq_open demo_cfg 1 1 (demo_sys []))) =
        (files (demo_sys []))(1 := (files (demo_sys []) 1)\<lparr>f_priv := Some 1\<rparr>)" by blast
  then have "f_priv (files (fst (irq_open demo_cfg 1 1 (demo_sys []))) 1) = Some 1" by simp
  then show ?thesis using a b c d by blast
qed

subsection \<open>C6: the stop signal and the file position\<close>

text \<open>
  C6. When a visit has passed its line through the skip/copy step and returns, it signals
  the traversal to stop (returns 1) exactly when the remaining capacity has reached 0, and
  to continue (returns 0) exactly when capacity remains; the bytes it copied were taken off
  the remaining capacity and added to the count of bytes written. The traversal stops
  after that record on the signal and goes on to the next record otherwise. When a read
  returns, the file position has advanced by exactly the number of bytes the read reports.
\<close>

theorem stop_signal_and_position:
  "(irq_callback cfg now irq info (f, m) = (info', Inr ((f', m'), ret)) \<and> count info \<noteq> 0 \<longrightarrow>
      (ret = 1 \<longleftrightarrow> remaining f' = 0) \<and> (ret = 0 \<longleftrightarrow> 0 < remaining f') \<and>
      remaining f' \<le> remaining f \<and>
      ncopied f' = ncopied f + (remaining f - remaining f') \<and>
      fst (irq_foreach (\<lambda>k. irq_callback cfg (if k = 0 then now else clk k)) ((irq, info) # rs) (f, m)) =
        (if remaining f' = 0 then (irq, info') # rs
         else (irq, info') #
              fst (irq_foreach (\<lambda>k. irq_callback cfg (clk (Suc k))) rs (f', m')))) \<and>
   (irq_read cfg clk filep buf buflen s = (s', Inr n) \<longrightarrow>
      f_pos (files s' filep) = f_pos (files s filep) + n)"
proof -
  have "irq_callback cfg now irq info (f, m) = (info', Inr ((f', m'), ret)) \<and> count info \<noteq> 0 \<longrightarrow>
      (ret = 1 \<longleftrightarrow> remaining f' = 0) \<and> (ret = 0 \<longleftrightarrow> 0 < remaining f') \<and>
      remaining f' \<le> remaining f \<and>
      ncopied f' = ncopied f + (remaining f - remaining f') \<and>
      fst (irq_foreach (\<lambda>k. irq_callback cfg (if k = 0 then now else clk k)) ((irq, info) # rs) (f, m)) =
        (if remaining f' = 0 then (irq, info') # rs
         else (irq, info') #
              fst (irq_foreach (\<lambda>k. irq_callback cfg (clk (Suc k))) rs (f', m')))"
  proof
    assume a: "irq_callback cfg now irq info (f, m) = (info', Inr ((f', m'), ret)) \<and> count info \<noteq> 0"
    then have cb: "irq_callback cfg now irq info (f, m) = (info', Inr ((f', m'), ret))"
      and nz: "count info \<noteq> 0" by simp_all
    note sig = irq_callback_signal [OF cb nz]
    have "fst (irq_foreach (\<lambda>k. irq_callback cfg (if k = 0 then now else clk k)) ((irq, info) # rs) (f, m)) =
        (if remaining f' = 0 then (irq, info') # rs
         else (irq, info') #
              fst (irq_foreach (\<lambda>k. irq_callback cfg (clk (Suc k))) rs (f', m')))"
      using sig
      by (cases "irq_foreach (\<lambda>k. irq_callback cfg (clk (Suc k))) rs (f', m')") (auto simp: cb)
    then show "(ret = 1 \<longleftrightarrow> remaining f' = 0) \<and> (ret = 0 \<longleftrightarrow> 0 < remaining f') \<and>
      remaining f' \<le> remaining f \<and>
      ncopied f' = ncopied f + (remaining f - remaining f') \<and>
      fst (irq_foreach (\<lambda>k. irq_callback cfg (if k = 0 then now else clk k)) ((irq, info) # rs) (f, m)) =
        (if remaining f' = 0 then (irq, info') # rs
         else (irq, info') #
              fst (irq_foreach (\<lambda>k. irq_callback cfg (clk (Suc k))) rs (f', m')))"
      using sig by simp
  qed
  then show ?thesis using irq_read_f_pos [of cfg clk filep buf buflen s s' n] by blast
qed

theorem stop_signal_and_position_witness:
  "(\<exists>info' f' m' ret.
      irq_callback demo_cfg 1100 5 (demo_rec 120 250) (zeroed\<lparr>remaining := 47\<rparr>, \<lambda>a. CHR 0x00) =
        (info', Inr ((f', m'), ret)) \<and>
      ret = 1 \<and> remaining f' = 0 \<and> ncopied f' = 47) \<and>
   (\<exists>s' n. irq_read demo_cfg demo_clk 0 0 60 (demo_sys [(5, demo_rec 120 250)]) = (s', Inr n) \<and>
      f_pos (files s' 0) = n)"
proof -
  let ?f = "zeroed\<lparr>remaining := 47\<rparr>"
  let ?m = "\<lambda>a::nat. CHR 0x00"
  let ?s = "demo_sys [(5, demo_rec 120 250)]"
  have nz: "count (demo_rec 120 250) \<noteq> 0" by (simp add: demo_rec_fields)
  have fit: "length (irq_row demo_cfg 1100 5 (demo_rec 120 250)) < IRQ_LINELEN"
    by (simp add: demo_row_120_len IRQ_LINELEN_def)
  note len = demo_row_120_len
  from irq_callback_row [OF nz fit, of ?f ?m] obtain f' m' ret where
    cb: "irq_callback demo_cfg 1100 5 (demo_rec 120 250) (?f, ?m) =
          ((demo_rec 120 250)\<lparr>start := 1100, count := 0, time := 0\<rparr>, Inr ((f', m'), ret))"
    and r: "remaining f' = 0"
    by (auto simp: len zeroed_def)
  have fits: "rows_fit demo_cfg demo_clk (g_irqvector ?s)"
    by (simp add: demo_fit_120 demo_sys_fields)
  have "f_priv (files ?s 0) = Some 0" "deref (heap ?s) 0 = Some zeroed"
    by (simp_all add: demo_sys_fields)
  from irq_read_report [OF this fits, of 0 60] obtain s' n where
    rd: "irq_read demo_cfg demo_clk 0 0 60 ?s = (s', Inr n)" by blast
  have p0: "f_pos (files ?s 0) = 0" by (simp add: demo_sys_fields)
  from stop_signal_and_position [of demo_cfg 1100 5 "demo_rec 120 250" ?f ?m
      "(demo_rec 120 250)\<lparr>start := 1100, count := 0, time := 0\<rparr>" f' m' ret demo_clk "[]" 0 0 60 ?s s' n]
    cb nz rd r
  have "ret = 1 \<and> remaining f' = 0 \<and> ncopied f' = 47 \<and> f_pos (files s' 0) = n"
    by (simp add: p0) (simp add: zeroed_def)
  then show ?thesis using cb rd by blast
qed

subsection \<open>C7: the lines of the report\<close>

text \<open>
  C7. A visited record whose snapshot count is zero contributes no bytes, and every record
  whose snapshot count is nonzero is to contribute exactly one line in the fixed format, in
  enumeration order after the header. The code does so for the lines that fit the scratch
  line of the session (\<open>report_lines_when_fitting\<close>), and the comment at \<open>IRQ_LINELEN\<close> asks
  for a scratch line that holds the longest line. It does not hold it: \<open>snprintf\<close> stores at
  most 49 characters and returns the untruncated length, which is passed on to the skip/copy
  step. The record with interrupt number 1000, count 120 in one second and a busy time of
  999999 microseconds renders a line of 50 characters; the read copies 50 bytes out of the
  scratch line, and what the reader gets in place of the newline of the format is the
  terminating NUL.
\<close>

theorem overlong_line_at_failing_input:
  "count (demo_rec 120 999999) \<noteq> 0 \<and>
   snd (irq_read demo_cfg demo_clk 0 0 200 (demo_sys [(1000, demo_rec 120 999999)])) = Inr 97 \<and>
   mem_read (umem (fst (irq_read demo_cfg demo_clk 0 0 200 (demo_sys [(1000, demo_rec 120 999999)])))) 0 97 =
     HDR_FMT @ ''1000 08001000 00000000        120  120.000 999999'' @ [CHR 0x00] \<and>
   IRQ_FMT 1000 0x08001000 0 120 120 0 999999 =
     ''1000 08001000 00000000        120  120.000 999999'' @ [CHR 0x0A] \<and>
   mem_read (umem (fst (irq_read demo_cfg demo_clk 0 0 200 (demo_sys [(1000, demo_rec 120 999999)])))) 0 97 \<noteq>
     HDR_FMT @ IRQ_FMT 1000 0x08001000 0 120 120 0 999999"
proof -
  let ?info = "demo_rec 120 999999"
  let ?s = "demo_sys [(1000, ?info)]"
  let ?row = "irq_row demo_cfg 1100 1000 ?info"
  define out where "out = ''1000 08001000 00000000        120  120.000 999999'' @ [CHR 0x00]"
  define f2 where "f2 = after_header zeroed 0 0 200"
  have hdr: "take 200 HDR_FMT = HDR_FMT" by (simp add: length_HDR_FMT)
  have f2: "offset f2 = 0" "buffer f2 = 47" "remaining f2 = 153" "ncopied f2 = 47"
    "length (line f2) = IRQ_LINELEN"
    by (simp_all add: f2_def after_header_def length_HDR_FMT zeroed_def IRQ_LINELEN_def)
  have nz: "count ?info \<noteq> 0" by (simp add: demo_rec_fields)
  have len: "length ?row = IRQ_LINELEN" by (simp add: demo_row_1000 IRQ_LINELEN_def)
  have room: "IRQ_LINELEN \<le> remaining f2" by (simp add: f2 IRQ_LINELEN_def)
  have trunc: "butlast ?row @ [CHR 0x00] = out" by (simp add: demo_row_1000 out_def)
  have lout: "length (HDR_FMT @ out) = 97" by (simp add: length_HDR_FMT out_def)
  from irq_callback_exact [OF nz len f2(5) f2(1) room, of "memcpy (umem ?s) 0 HDR_FMT"]
  obtain f3 where
    cb: "irq_callback demo_cfg 1100 1000 ?info (f2, memcpy (umem ?s) 0 HDR_FMT) =
           (?info\<lparr>start := 1100, count := 0, time := 0\<rparr>,
            Inr ((f3, memcpy (memcpy (umem ?s) 0 HDR_FMT) 47 out), 0))"
    and n3: "ncopied f3 = 97"
    unfolding trunc by (auto simp: f2 IRQ_LINELEN_def)
  have "memcpy (memcpy (umem ?s) 0 HDR_FMT) (0 + length HDR_FMT) out =
          memcpy (umem ?s) 0 (HDR_FMT @ out)"
    by (rule memcpy_append)
  then have m: "memcpy (memcpy (umem ?s) 0 HDR_FMT) 47 out = memcpy (umem ?s) 0 (HDR_FMT @ out)"
    by (simp only: length_HDR_FMT add_0)
  have fe: "irq_foreach (\<lambda>k. irq_callback demo_cfg (demo_clk k)) (g_irqvector ?s)
              (f2, memcpy (umem ?s) 0 HDR_FMT) =
            ([(1000, ?info\<lparr>start := 1100, count := 0, time := 0\<rparr>)],
             Inr (f3, memcpy (umem ?s) 0 (HDR_FMT @ out)))"
    by (simp add: demo_sys_fields demo_clk_def cb m)
  have priv: "f_priv (files ?s 0) = Some 0" and sess: "deref (heap ?s) 0 = Some zeroed"
    and pos: "f_pos (files ?s 0) = 0"
    by (simp_all add: demo_sys_fields)
  have rd: "snd (irq_read demo_cfg demo_clk 0 0 200 ?s) = Inr 97"
    "umem (fst (irq_read demo_cfg demo_clk 0 0 200 ?s)) = memcpy (umem ?s) 0 (HDR_FMT @ out)"
    by (simp_all add: irq_read_unfold [OF priv sess] pos hdr f2_def [symmetric] fe n3)
  have bytes: "mem_read (umem (fst (irq_read demo_cfg demo_clk 0 0 200 ?s))) 0 97 = HDR_FMT @ out"
    unfolding rd(2) by (rule mem_read_memcpy_len [OF lout])
  have fmt: "IRQ_FMT 1000 0x08001000 0 120 120 0 999999 =
     ''1000 08001000 00000000        120  120.000 999999'' @ [CHR 0x0A]"
    by (simp add: fmt_eval)
  have "HDR_FMT @ out \<noteq> HDR_FMT @ IRQ_FMT 1000 0x08001000 0 120 120 0 999999"
    unfolding fmt by (simp add: out_def)
  then show ?thesis using nz rd(1) bytes fmt unfolding out_def by simp
qed

subsection \<open>C8: the rate never divides by zero\<close>

text \<open>
  C8. For every record that produces a line, the elapsed window used as divisor of the rate
  is now minus the snapshot's window start (in 32-bit tick arithmetic), floored to at least
  one tick. Every division by it succeeds, so the rate computation returns both the integer
  part and the fractional part, and a visit never ends in a division by zero.
\<close>

theorem rate_divisor_floored:
  "unat (irq_elapsed now st) = max 1 (unat (now - st)) \<and>
   udiv64 x (ucast (irq_elapsed now st)) = Inr (x div ucast (irq_elapsed now st)) \<and>
   (\<exists>intpart fracpart. irq_rate tps c (irq_elapsed now st) = Inr (intpart, fracpart)) \<and>
   snd (irq_callback cfg now irq info fm) \<noteq> Inl DivideByZero"
proof -
  have "udiv64 x (ucast (irq_elapsed now st)) = Inr (x div ucast (irq_elapsed now st))"
    by (simp add: udiv64_def ucast_up_nonzero irq_elapsed_nonzero)
  moreover have "snd (irq_callback cfg now irq info fm) \<noteq> Inl DivideByZero"
    using irq_callback_fault [of cfg now irq info fm DivideByZero] by auto
  ultimately show ?thesis
    using unat_irq_elapsed irq_rate_elapsed by blast
qed

subsection \<open>C9: duplicate\<close>

text \<open>
  C9. A successful \<open>irq_dup\<close> puts a copy of the source session, equal in every field, into
  a block that was free, and stores its address in the new file; the source file and session,
  both file positions and the registry are as before. From then on the two handles are
  independent: a read through one of them leaves the other's file position and session as
  they were. The registry is shared: a read through the new handle that runs the whole
  traversal resets every record, so a read through the old handle right after it, at the old
  handle's own position, finds nothing but the header.
\<close>

theorem dup_independent_sessions:
  assumes dup: "irq_dup oldp newp s = (s1, Inr OK)"
    and distinct: "oldp \<noteq> newp"
  shows "\<exists>a b f.
      f_priv (files s oldp) = Some a \<and> deref (heap s) a = Some f \<and> deref (heap s) b = None \<and>
      f_priv (files s1 oldp) = Some a \<and> f_priv (files s1 newp) = Some b \<and> a \<noteq> b \<and>
      deref (heap s1) a = Some f \<and> deref (heap s1) b = Some f \<and>
      f_pos (files s1 oldp) = f_pos (files s oldp) \<and> f_pos (files s1 newp) = f_pos (files s newp) \<and>
      g_irqvector s1 = g_irqvector s \<and>
      f_pos (files (fst (irq_read cfg clk newp buf buflen s1)) oldp) = f_pos (files s1 oldp) \<and>
      deref (heap (fst (irq_read cfg clk newp buf buflen s1))) a = Some f \<and>
      f_pos (files (fst (irq_read cfg clk oldp buf buflen s1)) newp) = f_pos (files s1 newp) \<and>
      deref (heap (fst (irq_read cfg clk oldp buf buflen s1))) b = Some f \<and>
      (rows_fit cfg clk (g_irqvector s1) \<and>
       length (irq_report cfg clk (g_irqvector s1)) - f_pos (files s1 newp) < buflen \<longrightarrow>
         g_irqvector (fst (irq_read cfg clk newp buf buflen s1)) =
           reset_first clk (length (g_irqvector s1)) (g_irqvector s1) \<and>
         (\<exists>s3. irq_read cfg clk' oldp buf' buflen' (fst (irq_read cfg clk newp buf buflen s1)) =
                 (s3, Inr (length (take buflen' (drop (f_pos (files s oldp)) HDR_FMT)))) \<and>
               mem_read (umem s3) buf' (length (take buflen' (drop (f_pos (files s oldp)) HDR_FMT))) =
                 take buflen' (drop (f_pos (files s oldp)) HDR_FMT)))"
proof -
  from irq_dup_OK [OF dup] obtain a b f where
    pa: "f_priv (files s oldp) = Some a" and da: "deref (heap s) a = Some f"
    and mb: "kmm_malloc (heap s) = Some b"
    and s1: "s1 = s\<lparr>heap := (heap s)[b := Some f],
                  files := (files s)(newp := (files s newp)\<lparr>f_priv := Some b\<rparr>)\<rparr>"
    by blast
  from kmm_malloc_Some [OF mb] have b: "b < length (heap s)" "heap s ! b = None" by simp_all
  have db: "deref (heap s) b = None" using b by (simp add: deref_def)
  have ab: "a \<noteq> b" using da db by auto
  have a: "a < length (heap s)" using da by (simp add: deref_def split: if_splits)
  have pa1: "f_priv (files s1 oldp) = Some a" using pa distinct by (simp add: s1)
  have pb1: "f_priv (files s1 newp) = Some b" by (simp add: s1)
  have da1: "deref (heap s1) a = Some f" using da ab a by (simp add: s1 deref_def)
  have db1: "deref (heap s1) b = Some f" using b by (simp add: s1 deref_def)
  have pos: "f_pos (files s1 oldp) = f_pos (files s oldp)" "f_pos (files s1 newp) = f_pos (files s newp)"
    "g_irqvector s1 = g_irqvector s"
    using distinct by (simp_all add: s1)
  let ?s2 = "fst (irq_read cfg clk newp buf buflen s1)"
  let ?s2' = "fst (irq_read cfg clk oldp buf buflen s1)"
  note fr = irq_read_frame [of oldp newp cfg clk buf buflen s1 a]
  note fr' = irq_read_frame [of newp oldp cfg clk buf buflen s1 b]
  have n1: "f_pos (files ?s2 oldp) = f_pos (files s1 oldp)" "f_priv (files ?s2 oldp) = Some a"
    and n2: "deref (heap ?s2) a = Some f"
    using fr distinct pb1 ab pa1 da1 by simp_all
  have o1: "f_pos (files ?s2' newp) = f_pos (files s1 newp)"
    and o2: "deref (heap ?s2') b = Some f"
    using fr' distinct pa1 ab db1 by simp_all
  have shared: "rows_fit cfg clk (g_irqvector s1) \<and>
       length (irq_report cfg clk (g_irqvector s1)) - f_pos (files s1 newp) < buflen \<longrightarrow>
         g_irqvector ?s2 = reset_first clk (length (g_irqvector s1)) (g_irqvector s1) \<and>
         (\<exists>s3. irq_read cfg clk' oldp buf' buflen' ?s2 =
                 (s3, Inr (length (take buflen' (drop (f_pos (files s oldp)) HDR_FMT)))) \<and>
               mem_read (umem s3) buf' (length (take buflen' (drop (f_pos (files s oldp)) HDR_FMT))) =
                 take buflen' (drop (f_pos (files s oldp)) HDR_FMT))"
  proof
    assume h: "rows_fit cfg clk (g_irqvector s1) \<and>
       length (irq_report cfg clk (g_irqvector s1)) - f_pos (files s1 newp) < buflen"
    then have fit: "rows_fit cfg clk (g_irqvector s1)"
      and room: "length (irq_report cfg clk (g_irqvector s1)) - f_pos (files s1 newp) < buflen"
      by simp_all
    have g2: "g_irqvector ?s2 = reset_first clk (length (g_irqvector s1)) (g_irqvector s1)"
      by (rule irq_read_complete [OF pb1 db1 fit room])
    have fit2: "rows_fit cfg clk' (g_irqvector ?s2)"
      unfolding g2 by (rule irq_rows_reset_fit)
    have rep2: "irq_report cfg clk' (g_irqvector ?s2) = HDR_FMT"
      unfolding g2 by (rule irq_report_reset)
    have p2: "f_pos (files ?s2 oldp) = f_pos (files s oldp)"
      using n1(1) pos(1) by simp
    from irq_read_report [OF n1(2) n2 fit2, of buf' buflen'] obtain s3 where
      "irq_read cfg clk' oldp buf' buflen' ?s2 =
         (s3, Inr (length (take buflen' (drop (f_pos (files s oldp)) HDR_FMT))))"
      "umem s3 = memcpy (umem ?s2) buf' (take buflen' (drop (f_pos (files s oldp)) HDR_FMT))"
      unfolding rep2 p2 by blast
    then have "\<exists>s3. irq_read cfg clk' oldp buf' buflen' ?s2 =
                 (s3, Inr (length (take buflen' (drop (f_pos (files s oldp)) HDR_FMT)))) \<and>
               mem_read (umem s3) buf' (length (take buflen' (drop (f_pos (files s oldp)) HDR_FMT))) =
                 take buflen' (drop (f_pos (files s oldp)) HDR_FMT)"
      by (simp del: length_take)
    then show "g_irqvector ?s2 = reset_first clk (length (g_irqvector s1)) (g_irqvector s1) \<and>
         (\<exists>s3. irq_read cfg clk' oldp buf' buflen' ?s2 =
                 (s3, Inr (length (take buflen' (drop (f_pos (files s oldp)) HDR_FMT)))) \<and>
               mem_read (umem s3) buf' (length (take buflen' (drop (f_pos (files s oldp)) HDR_FMT))) =
                 take buflen' (drop (f_pos (files s oldp)) HDR_FMT))"
      using g2 by simp
  qed
  show ?thesis
    using pa da db pa1 pb1 ab da1 db1 pos n1(1) n2 o1 o2 shared by blast
qed

theorem dup_independent_sessions_witness:
  "\<exists>s1. irq_dup 0 1 (demo_sys [(5, demo_rec 120 250)]) = (s1, Inr OK) \<and>
      f_priv (files s1 0) = Some 0 \<and> f_priv (files s1 1) = Some 1 \<and>
      deref (heap s1) 0 = Some zeroed \<and> deref (heap s1) 1 = Some zeroed \<and>
      f_pos (files (fst (irq_read demo_cfg demo_clk 1 0 200 s1)) 0) = 0 \<and>
      deref (heap (fst (irq_read demo_cfg demo_clk 1 0 200 s1))) 0 = Some zeroed \<and>
      g_irqvector (fst (irq_read demo_cfg demo_clk 1 0 200 s1)) =
        [(5, \<lparr>handler = 0x08001000, arg = 0, start = 1100, count = 0, time = 0\<rparr>)] \<and>
      (\<exists>s3. irq_read demo_cfg demo_clk 0 300 200 (fst (irq_read demo_cfg demo_clk 1 0 200 s1)) =
              (s3, Inr 47) \<and>
            mem_read (umem s3) 300 47 = HDR_FMT)"
proof -
  let ?s = "demo_sys [(5, demo_rec 120 250)]"
  define s1 where "s1 = ?s\<lparr>heap := (heap ?s)[1 := Some zeroed],
      files := (files ?s)(1 := (files ?s 1)\<lparr>f_priv := Some 1\<rparr>)\<rparr>"
  have dup: "irq_dup 0 1 ?s = (s1, Inr OK)"
    by (simp add: irq_dup_def s1_def demo_sys_def deref_def)
  have ne: "(0 :: nat) \<noteq> 1" by simp
  have g1: "g_irqvector s1 = [(5, demo_rec 120 250)]" and p1: "f_pos (files s1 1) = 0"
    and p0: "f_pos (files ?s 0) = 0"
    by (simp_all add: s1_def demo_sys_def)
  have hyp: "rows_fit demo_cfg demo_clk (g_irqvector s1) \<and>
       length (irq_report demo_cfg demo_clk (g_irqvector s1)) - f_pos (files s1 1) < 200"
    by (simp add: g1 p1 demo_fit_120 demo_report_120 length_HDR_FMT)
  from dup_independent_sessions [OF dup ne, where cfg = demo_cfg and clk = demo_clk and buf = 0
      and buflen = 200 and clk' = demo_clk and buf' = 300 and buflen' = 200]
  obtain a b f where
    t: "f_priv (files ?s 0) = Some a" "deref (heap ?s) a = Some f"
      "f_priv (files s1 0) = Some a" "f_priv (files s1 1) = Some b"
      "deref (heap s1) a = Some f" "deref (heap s1) b = Some f"
      "f_pos (files (fst (irq_read demo_cfg demo_clk 1 0 200 s1)) 0) = f_pos (files s1 0)"
      "deref (heap (fst (irq_read demo_cfg demo_clk 1 0 200 s1))) a = Some f"
    and sh: "rows_fit demo_cfg demo_clk (g_irqvector s1) \<and>
       length (irq_report demo_cfg demo_clk (g_irqvector s1)) - f_pos (files s1 1) < 200 \<longrightarrow>
         g_irqvector (fst (irq_read demo_cfg demo_clk 1 0 200 s1)) =
           reset_first demo_clk (length (g_irqvector s1)) (g_irqvector s1) \<and>
         (\<exists>s3. irq_read demo_cfg demo_clk 0 300 200 (fst (irq_read demo_cfg demo_clk 1 0 200 s1)) =
                 (s3, Inr (length (take 200 (drop (f_pos (files ?s 0)) HDR_FMT)))) \<and>
               mem_read (umem s3) 300 (length (take 200 (drop (f_pos (files ?s 0)) HDR_FMT))) =
                 take 200 (drop (f_pos (files ?s 0)) HDR_FMT))"
    by blast
  have a: "a = 0" and f: "f = zeroed" using t(1,2) by (simp_all add: demo_sys_fields)
  have b: "b = 1" using t(4) by (simp add: s1_def)
  have pos0: "f_pos (files s1 0) = 0" by (simp add: s1_def demo_sys_def)
  have reg: "reset_first demo_clk (length (g_irqvector s1)) (g_irqvector s1) =
      [(5, \<lparr>handler = 0x08001000, arg = 0, start = 1100, count = 0, time = 0\<rparr>)]"
    by (simp add: g1 demo_clk_def demo_rec_def)
  from sh hyp have
    g2: "g_irqvector (fst (irq_read demo_cfg demo_clk 1 0 200 s1)) =
           [(5, \<lparr>handler = 0x08001000, arg = 0, start = 1100, count = 0, time = 0\<rparr>)]"
    and r3: "\<exists>s3. irq_read demo_cfg demo_clk 0 300 200 (fst (irq_read demo_cfg demo_clk 1 0 200 s1)) =
                 (s3, Inr 47) \<and> mem_read (umem s3) 300 47 = HDR_FMT"
    by (simp_all only: reg p0 drop_0 length_HDR_FMT) (simp_all add: length_HDR_FMT)
  show ?thesis
    using dup t g2 r3 unfolding a b f pos0 by blast
qed

subsection \<open>C10: a read that delivers no line still resets\<close>

text \<open>
  C10. A read on a valid session always runs the traversal: on a registry that is not
  empty, the first record comes out reset (window start at the time of its visit, count
  and busy time zero), whatever the capacity. When the capacity is zero or is used up by
  the header, the read returns the bytes of the header it was asked for and none of a record
  line, yet the first record is reset; if its count was nonzero the traversal stops there
  and the other records are untouched.
\<close>

theorem read_without_data_resets:
  assumes priv: "f_priv (files s filep) = Some a"
    and sess: "deref (heap s) a = Some f0"
    and reg: "g_irqvector s = (irq, info) # rs"
  shows "(\<exists>n. n \<le> length rs \<and>
            g_irqvector (fst (irq_read cfg clk filep buf buflen s)) =
              (irq, info\<lparr>start := clk 0, count := 0, time := 0\<rparr>) #
              reset_first (\<lambda>k. clk (Suc k)) n rs) \<and>
         (buflen \<le> length HDR_FMT - f_pos (files s filep) \<longrightarrow>
            snd (irq_read cfg clk filep buf buflen s) = Inr buflen \<and>
            mem_read (umem (fst (irq_read cfg clk filep buf buflen s))) buf buflen =
              take buflen (drop (f_pos (files s filep)) HDR_FMT) \<and>
            (count info \<noteq> 0 \<longrightarrow>
               g_irqvector (fst (irq_read cfg clk filep buf buflen s)) =
                 (irq, info\<lparr>start := clk 0, count := 0, time := 0\<rparr>) # rs))"
proof -
  let ?pos = "f_pos (files s filep)"
  let ?D0 = "take buflen (drop ?pos HDR_FMT)"
  let ?f2 = "after_header f0 ?pos buf buflen"
  let ?fm = "(?f2, memcpy (umem s) buf ?D0)"
  have first: "\<exists>n. n \<le> length rs \<and>
            g_irqvector (fst (irq_read cfg clk filep buf buflen s)) =
              (irq, info\<lparr>start := clk 0, count := 0, time := 0\<rparr>) #
              reset_first (\<lambda>k. clk (Suc k)) n rs"
    by (rule irq_read_first_reset [OF priv sess reg])
  have full: "buflen \<le> length HDR_FMT - ?pos \<longrightarrow>
            snd (irq_read cfg clk filep buf buflen s) = Inr buflen \<and>
            mem_read (umem (fst (irq_read cfg clk filep buf buflen s))) buf buflen = ?D0 \<and>
            (count info \<noteq> 0 \<longrightarrow>
               g_irqvector (fst (irq_read cfg clk filep buf buflen s)) =
                 (irq, info\<lparr>start := clk 0, count := 0, time := 0\<rparr>) # rs)"
  proof
    assume le: "buflen \<le> length HDR_FMT - ?pos"
    then have lD: "length ?D0 = buflen" by simp
    have rem: "remaining ?f2 = 0" and nc: "ncopied ?f2 = buflen"
      using lD by (simp_all add: after_header_def)
    from irq_foreach_full [OF rem, of cfg clk "g_irqvector s" "memcpy (umem s) buf ?D0"]
    obtain rs' f' where
      fe: "irq_foreach (\<lambda>k. irq_callback cfg (clk k)) (g_irqvector s) ?fm =
             (rs', Inr (f', memcpy (umem s) buf ?D0))"
      and nf: "ncopied f' = ncopied ?f2" by blast
    have rd: "irq_read cfg clk filep buf buflen s =
       (s\<lparr>g_irqvector := rs',
          files := (files s)(filep := (files s filep)\<lparr>f_pos := ?pos + buflen\<rparr>),
          heap := (heap s)[a := Some f'],
          umem := memcpy (umem s) buf ?D0\<rparr>, Inr buflen)"
      by (simp add: irq_read_unfold [OF priv sess] fe nf nc del: length_take)
    have bytes: "mem_read (memcpy (umem s) buf ?D0) buf buflen = ?D0"
      by (rule mem_read_memcpy_len [OF lD])
    have stop: "count info \<noteq> 0 \<longrightarrow> rs' = (irq, info\<lparr>start := clk 0, count := 0, time := 0\<rparr>) # rs"
      using irq_foreach_full_first [OF rem, of info cfg clk irq rs "memcpy (umem s) buf ?D0"] fe
      by (simp add: reg)
    show "snd (irq_read cfg clk filep buf buflen s) = Inr buflen \<and>
            mem_read (umem (fst (irq_read cfg clk filep buf buflen s))) buf buflen = ?D0 \<and>
            (count info \<noteq> 0 \<longrightarrow>
               g_irqvector (fst (irq_read cfg clk filep buf buflen s)) =
                 (irq, info\<lparr>start := clk 0, count := 0, time := 0\<rparr>) # rs)"
      using stop bytes by (simp add: rd del: length_take)
  qed
  show ?thesis using first full by blast
qed

theorem read_without_data_resets_witness:
  "snd (irq_read demo_cfg demo_clk 0 0 0 (demo_sys [(5, demo_rec 120 250), (6, demo_rec 7 3)])) = Inr 0 \<and>
   g_irqvector (fst (irq_read demo_cfg demo_clk 0 0 0 (demo_sys [(5, demo_rec 120 250), (6, demo_rec 7 3)]))) =
     [(5, \<lparr>handler = 0x08001000, arg = 0, start = 1100, count = 0, time = 0\<rparr>), (6, demo_rec 7 3)]"
proof -
  let ?s = "demo_sys [(5, demo_rec 120 250), (6, demo_rec 7 3)]"
  have "f_priv (files ?s 0) = Some 0" "deref (heap ?s) 0 = Some zeroed"
    "g_irqvector ?s = (5, demo_rec 120 250) # [(6, demo_rec 7 3)]"
    by (simp_all add: demo_sys_def deref_def)
  from read_without_data_resets [OF this, where cfg = demo_cfg and clk = demo_clk and buf = 0 and buflen = 0]
  show ?thesis
    by (simp add: demo_clk_def) (simp add: demo_rec_def)
qed

end
